theory Spec2Isabelle
  imports Complex_Main
begin

section \<open>Values, errors and dictionaries\<close>

text \<open>
  The module \<^verbatim>\<open>postproengine/instantaneousplanes.py\<close> is configuration-driven glue:
  it reads dictionaries that come from a YAML file, evaluates some of their entries as
  Python expressions and calls plotting and imaging libraries. The values that travel
  through those dictionaries are dynamically typed, so they are one datatype here.
  \<open>PyObj\<close> stands for an object the model never looks into (a function made by
  evaluating a lambda expression, an array of field data), named by a string.
\<close>

datatype pyval =
    PyNone
  | PyBool bool
  | PyInt int
  | PyFloat real
  | PyStr string
  | PyList "pyval list"
  | PyDict "(string \<times> pyval) list"
  | PyObj string

text \<open>Every \<^verbatim>\<open>raise\<close> of the module and of the builtins it calls is a value.\<close>

datatype py_error =
    ValueError string
  | KeyError pyval
  | IndexError
  | TypeError
  | AttributeError
  | OverflowError
  | OtherError string

type_synonym pydict = "string \<rightharpoonup> pyval"

text \<open>\<^verbatim>\<open>d[k]\<close>: a missing key raises \<^verbatim>\<open>KeyError\<close>.\<close>

definition getitem :: "pydict \<Rightarrow> string \<Rightarrow> py_error + pyval" where
  "getitem d k = (case d k of None \<Rightarrow> Inl (KeyError (PyStr k)) | Some v \<Rightarrow> Inr v)"

text \<open>Truthiness, as \<^verbatim>\<open>if x:\<close> tests it.\<close>

fun truthy :: "pyval \<Rightarrow> bool" where
  "truthy PyNone = False"
| "truthy (PyBool b) = b"
| "truthy (PyInt n) = (n \<noteq> 0)"
| "truthy (PyFloat x) = (x \<noteq> 0)"
| "truthy (PyStr s) = (s \<noteq> [])"
| "truthy (PyList xs) = (xs \<noteq> [])"
| "truthy (PyDict kvs) = (kvs \<noteq> [])"
| "truthy (PyObj n) = True"

text \<open>\<^verbatim>\<open>len(x)\<close>: defined on strings, lists and dictionaries.\<close>

fun py_len :: "pyval \<Rightarrow> py_error + nat" where
  "py_len (PyStr s) = Inr (length s)"
| "py_len (PyList xs) = Inr (length xs)"
| "py_len (PyDict kvs) = Inr (length kvs)"
| "py_len v = Inl TypeError"

text \<open>The items a \<^verbatim>\<open>for\<close> loop or \<^verbatim>\<open>enumerate\<close> walks through.\<close>

fun py_iter :: "pyval \<Rightarrow> py_error + pyval list" where
  "py_iter (PyList xs) = Inr xs"
| "py_iter (PyStr s) = Inr (map (\<lambda>c. PyStr [c]) s)"
| "py_iter (PyDict kvs) = Inr (map (\<lambda>kv. PyStr (fst kv)) kvs)"
| "py_iter v = Inl TypeError"

text \<open>
  \<^verbatim>\<open>x[n]\<close> for the index of an \<^verbatim>\<open>enumerate\<close>, which is never negative: past the end
  of a list it raises \<^verbatim>\<open>IndexError\<close>. The dictionaries of a configuration have
  strings as keys, so a number is never one of them.
\<close>

fun py_index :: "pyval \<Rightarrow> nat \<Rightarrow> py_error + pyval" where
  "py_index (PyList xs) n = (if n < length xs then Inr (xs ! n) else Inl IndexError)"
| "py_index (PyStr s) n = (if n < length s then Inr (PyStr [s ! n]) else Inl IndexError)"
| "py_index (PyDict kvs) n = Inl (KeyError (PyInt (int n)))"
| "py_index v n = Inl TypeError"

text \<open>Numbers as the numeric library takes them: a bool counts as 0 or 1.\<close>

fun as_int :: "pyval \<Rightarrow> py_error + int" where
  "as_int (PyInt n) = Inr n"
| "as_int (PyBool b) = Inr (if b then 1 else 0)"
| "as_int v = Inl TypeError"

section \<open>Double-precision numbers\<close>

text \<open>
  The numeric library computes in IEEE 754 binary64: every result of an arithmetic
  operation is the exact result rounded to the nearest number of the format, a tie going
  to the neighbour with an even significand. \<open>round_even\<close> rounds a real to the nearest
  integer in that way.
\<close>

definition round_even :: "real \<Rightarrow> int" where
  "round_even y =
     (let f = \<lfloor>y\<rfloor>; d = y - of_int f
      in if d < 1 / 2 then f
         else if 1 / 2 < d then f + 1
         else if even f then f else f + 1)"

text \<open>
  The binary exponent at which a real is rounded: the \<open>e\<close> with \<open>2^e \<le> |x| < 2^(e + 1)\<close>,
  kept between \<open>-1022\<close> (below which the numbers of the format are equally spaced, the
  subnormal range) and \<open>1023\<close>. \<open>bexp n x\<close> searches the \<open>n\<close> exponents above \<open>-1022\<close>
  from the top.
\<close>

primrec bexp :: "nat \<Rightarrow> real \<Rightarrow> int" where
  "bexp 0 x = - 1022"
| "bexp (Suc n) x = (if 2 powi (int n - 1021) \<le> \<bar>x\<bar> then int n - 1021 else bexp n x)"

definition dbl_exponent :: "real \<Rightarrow> int" where
  "dbl_exponent x = bexp 2045 x"

text \<open>
  Rounding to 53 significant bits at that exponent. The result of rounding a real of
  magnitude \<open>2^1024 - 2^970\<close> or more has magnitude \<open>2^1024\<close> or more: that is overflow.
\<close>

definition round_double :: "real \<Rightarrow> real" where
  "round_double x =
     2 powi (dbl_exponent x - 52) * of_int (round_even (x / 2 powi (dbl_exponent x - 52)))"

text \<open>
  A double-precision value: a finite number, one of the two infinities, or not a number.
  The two zeros of the format are one value here; they compare equal in Python, and the
  code divides by no zero.
\<close>

datatype dbl = Fin real | PInf | NInf | NaN

instantiation dbl :: "{zero, one}"
begin

definition zero_dbl :: dbl where
  "zero_dbl = Fin 0"

definition one_dbl :: dbl where
  "one_dbl = Fin 1"

instance ..

end

definition d_round :: "real \<Rightarrow> dbl" where
  "d_round x =
     (let y = round_double x
      in if 2 ^ 1024 \<le> y then PInf else if y \<le> - (2 ^ 1024) then NInf else Fin y)"

fun d_add :: "dbl \<Rightarrow> dbl \<Rightarrow> dbl" where
  "d_add (Fin x) (Fin y) = d_round (x + y)"
| "d_add NaN y = NaN"
| "d_add x NaN = NaN"
| "d_add PInf NInf = NaN"
| "d_add NInf PInf = NaN"
| "d_add PInf y = PInf"
| "d_add x PInf = PInf"
| "d_add NInf y = NInf"
| "d_add x NInf = NInf"

fun d_neg :: "dbl \<Rightarrow> dbl" where
  "d_neg (Fin x) = Fin (- x)"
| "d_neg PInf = NInf"
| "d_neg NInf = PInf"
| "d_neg NaN = NaN"

definition d_sub :: "dbl \<Rightarrow> dbl \<Rightarrow> dbl" where
  "d_sub x y = d_add x (d_neg y)"

text \<open>An infinity of the sign of a nonzero real, and the product of two values.\<close>

definition d_inf :: "real \<Rightarrow> dbl" where
  "d_inf x = (if x = 0 then NaN else if 0 < x then PInf else NInf)"

fun d_mul :: "dbl \<Rightarrow> dbl \<Rightarrow> dbl" where
  "d_mul (Fin x) (Fin y) = d_round (x * y)"
| "d_mul NaN y = NaN"
| "d_mul x NaN = NaN"
| "d_mul (Fin x) PInf = d_inf x"
| "d_mul (Fin x) NInf = d_inf (- x)"
| "d_mul PInf (Fin y) = d_inf y"
| "d_mul NInf (Fin y) = d_inf (- y)"
| "d_mul PInf PInf = PInf"
| "d_mul PInf NInf = NInf"
| "d_mul NInf PInf = NInf"
| "d_mul NInf NInf = PInf"

text \<open>
  The quotient of a value by a count, which the library has turned into a double (a
  count below \<open>2^53\<close> is one exactly).
\<close>

fun d_div_nat :: "dbl \<Rightarrow> nat \<Rightarrow> dbl" where
  "d_div_nat (Fin x) n = (if n = 0 then d_inf x else d_round (x / real n))"
| "d_div_nat PInf n = PInf"
| "d_div_nat NInf n = NInf"
| "d_div_nat NaN n = NaN"

text \<open>\<^verbatim>\<open>np.pi\<close>, the double \<^verbatim>\<open>0x400921FB54442D18\<close>.\<close>

definition np_pi :: real where
  "np_pi = 884279719003555 / 2 ^ 48"

text \<open>
  A configuration value as a double, as \<^verbatim>\<open>asanyarray(x) * 1.0\<close> makes one of a scalar:
  an integer is rounded, and one that is too large raises \<^verbatim>\<open>OverflowError\<close>; a float
  is itself; a bool counts as 0 or 1; a string, a dictionary and \<^verbatim>\<open>None\<close> raise
  \<^verbatim>\<open>TypeError\<close>. A list or an array object does not come here (see
  \<open>plot_radial_execute\<close>).
\<close>

fun as_double :: "pyval \<Rightarrow> py_error + real" where
  "as_double (PyInt n) =
     (if 2 ^ 1024 \<le> \<bar>round_double (of_int n)\<bar> then Inl OverflowError
      else Inr (round_double (of_int n)))"
| "as_double (PyFloat x) = Inr x"
| "as_double (PyBool b) = Inr (if b then 1 else 0)"
| "as_double v = Inl TypeError"

section \<open>Evenly spaced samples\<close>

text \<open>
  \<^verbatim>\<open>np.linspace(start, stop, num)\<close> with the end point included, on two doubles and a
  count, as the library computes it:
  \<^verbatim>\<open>
  if num < 0: raise ValueError(...)
  div = num - 1
  delta = stop - start
  y = arange(0, num)
  if div > 0:
      step = delta / div
      if step == 0:
          y /= div
          y *= delta
      else:
          y *= step
  else:
      y = y * delta
  y += start
  if num > 1:
      y[-1] = stop
  \<close>
  Every operation rounds. The indices \<open>0, 1, ...\<close> are doubles exactly (an array of
  \<open>2^53\<close> samples or more does not fit in memory).
\<close>

definition np_linspace :: "real \<Rightarrow> real \<Rightarrow> int \<Rightarrow> py_error + dbl list" where
  "np_linspace start stop num =
     (if num < 0 then Inl (ValueError ''Number of samples must be non-negative'')
      else
        let n = nat num;
            dv = n - 1;
            delta = d_sub (Fin stop) (Fin start);
            idx = map (\<lambda>i. Fin (real i)) [0..<n];
            y = (if 0 < dv
                 then (let step = d_div_nat delta dv
                       in if step = Fin 0
                          then map (\<lambda>t. d_mul (d_div_nat t dv) delta) idx
                          else map (\<lambda>t. d_mul t step) idx)
                 else map (\<lambda>t. d_mul t delta) idx);
            z = map (\<lambda>t. d_add t (Fin start)) y
        in Inr (if 1 < n then butlast z @ [Fin stop] else z))"

text \<open>
  The same call on the values a configuration holds. The library first takes the count
  as an index (\<^verbatim>\<open>operator.index\<close>), refuses a negative one, and only then turns the
  two end points into doubles.
\<close>

definition np_linspace_py :: "pyval \<Rightarrow> pyval \<Rightarrow> pyval \<Rightarrow> py_error + dbl list" where
  "np_linspace_py start stop num =
     (case as_int num of
        Inl e \<Rightarrow> Inl e
      | Inr n \<Rightarrow>
          if n < 0 then Inl (ValueError ''Number of samples must be non-negative'')
          else (case as_double start of
                  Inl e \<Rightarrow> Inl e
                | Inr a \<Rightarrow>
                    (case as_double stop of
                       Inl e \<Rightarrow> Inl e
                     | Inr b \<Rightarrow> np_linspace a b n)))"

text \<open>\<^verbatim>\<open>x + 1\<close> on a configuration value.\<close>

fun py_add1 :: "pyval \<Rightarrow> py_error + pyval" where
  "py_add1 (PyInt n) = Inr (PyInt (n + 1))"
| "py_add1 (PyBool b) = Inr (PyInt ((if b then 1 else 0) + 1))"
| "py_add1 (PyFloat x) = Inr (PyFloat (round_double (x + 1)))"
| "py_add1 v = Inl TypeError"

text \<open>
  The polar grid of \<^verbatim>\<open>plot_radial.execute\<close>:
  \<^verbatim>\<open>
  LTheta = 2 * np.pi
  r = np.linspace(0,LR,NR)
  theta = np.linspace(0,LTheta,NTheta+1)[0:-1] #periodic grid in theta
  \<close>
  The product \<^verbatim>\<open>2 * np.pi\<close> is exact, and the slice \<^verbatim>\<open>[0:-1]\<close> drops the last
  entry.
\<close>

definition polar_grid :: "pyval \<Rightarrow> pyval \<Rightarrow> pyval \<Rightarrow> py_error + (dbl list \<times> dbl list)" where
  "polar_grid LR NR NTheta =
     (let LTheta = PyFloat (2 * np_pi) in
      case np_linspace_py (PyInt 0) LR NR of
        Inl e \<Rightarrow> Inl e
      | Inr r \<Rightarrow>
          (case py_add1 NTheta of
             Inl e \<Rightarrow> Inl e
           | Inr n1 \<Rightarrow>
               (case np_linspace_py (PyInt 0) LTheta n1 of
                  Inl e \<Rightarrow> Inl e
                | Inr th \<Rightarrow> Inr (r, butlast th))))"

section \<open>Effects\<close>

text \<open>
  What a run does to the outside world is a log of events, in the order the calls are
  made. \<open>'img\<close> is the type of a decoded image. Console output is left out.
\<close>

datatype 'img event =
    PickleDump pyval
  | MakeDirs string
  | SaveFig string
  | Colorbar
  | CbarLabel pyval
  | CbarTicks "dbl list"
  | VideoOpen pyval pyval "nat \<times> nat"
  | VideoWrite "'img option"
  | VideoRelease
  | MimSave pyval "'img list" pyval

text \<open>
  A computation yields the events it made and then either the exception that ended it
  or its value. Events made before an exception stay made.
\<close>

type_synonym ('e, 'a) res = "'e list \<times> (py_error + 'a)"

definition r_ok :: "'a \<Rightarrow> ('e, 'a) res" where
  "r_ok x = ([], Inr x)"

definition r_raise :: "py_error \<Rightarrow> ('e, 'a) res" where
  "r_raise e = ([], Inl e)"

definition r_emit :: "'e \<Rightarrow> ('e, unit) res" where
  "r_emit ev = ([ev], Inr ())"

definition r_lift :: "py_error + 'a \<Rightarrow> ('e, 'a) res" where
  "r_lift r = ([], r)"

definition r_bind :: "('e, 'a) res \<Rightarrow> ('a \<Rightarrow> ('e, 'b) res) \<Rightarrow> ('e, 'b) res" where
  "r_bind m f =
     (case snd m of
        Inl e \<Rightarrow> (fst m, Inl e)
      | Inr x \<Rightarrow> (fst m @ fst (f x), snd (f x)))"

text \<open>\<^verbatim>\<open>for iplot, i in enumerate(xs): body\<close>, started at index \<open>k\<close>.\<close>

fun for_enum :: "(nat \<Rightarrow> pyval \<Rightarrow> ('e, unit) res) \<Rightarrow> nat \<Rightarrow> pyval list \<Rightarrow> ('e, unit) res" where
  "for_enum body k [] = r_ok ()"
| "for_enum body k (x # xs) = r_bind (body k x) (\<lambda>u. for_enum body (Suc k) xs)"

text \<open>The same loop when the body only computes a value that is appended to a list.\<close>

fun collect_enum :: "(nat \<Rightarrow> pyval \<Rightarrow> py_error + 'a) \<Rightarrow> nat \<Rightarrow> pyval list \<Rightarrow> py_error + 'a list" where
  "collect_enum body k [] = Inr []"
| "collect_enum body k (x # xs) =
     (case body k x of
        Inl e \<Rightarrow> Inl e
      | Inr y \<Rightarrow>
          (case collect_enum body (Suc k) xs of
             Inl e \<Rightarrow> Inl e
           | Inr ys \<Rightarrow> Inr (y # ys)))"

text \<open>The file names handed to \<^verbatim>\<open>plt.savefig\<close>, in order.\<close>

fun savefig_names :: "'img event list \<Rightarrow> string list" where
  "savefig_names [] = []"
| "savefig_names (SaveFig f # evs) = f # savefig_names evs"
| "savefig_names (ev # evs) = savefig_names evs"

section \<open>The plugin object and the services it calls\<close>

text \<open>
  The attributes \<^verbatim>\<open>execute\<close> sets on the plugin object before it runs the actions of a
  plane. Every action receives the object itself as \<^verbatim>\<open>parent\<close>.
\<close>

record parent =
  p_xaxis :: pyval
  p_yaxis :: pyval
  p_times :: pyval
  p_trange :: pyval
  p_iplane :: pyval
  p_db :: pydict
  p_iters :: pyval

text \<open>
  The collaborators the module calls and does not define: the expression evaluator
  (\<^verbatim>\<open>eval\<close> on a string), the string conversion of a value, the plane reader, the
  coordinate transform, the plotting calls of a frame, the image reader and video
  writer, and the interpolation template. They are parameters of the model; each may
  raise. \<open>sv_contourf\<close> stands for lines 270 to 280 of the source (figure selection, the
  call of the plot function, \<^verbatim>\<open>ax.contourf\<close>) and returns the levels of the contour
  set; \<open>sv_decorate\<close> stands for lines 297 to 341 (labels, title, limits, turbines,
  post-plot function); \<open>sv_radial_yz\<close> and \<open>sv_radial_draw\<close> stand for lines 526 to 527
  and 529 to 546 of \<^verbatim>\<open>plot_radial\<close>.
\<close>

record 'img services =
  sv_eval :: "string \<Rightarrow> py_error + pyval"
  sv_str :: "pyval \<Rightarrow> string"
  sv_format_field :: "pyval \<Rightarrow> string \<Rightarrow> string \<Rightarrow> py_error + string"
  sv_getPlaneXR :: "pyval list \<Rightarrow> py_error + pydict"
  sv_compute_axis1axis2_coords :: "pydict \<Rightarrow> py_error + pydict"
  sv_contourf :: "parent \<Rightarrow> pydict \<Rightarrow> pyval \<Rightarrow> py_error + real list"
  sv_decorate :: "parent \<Rightarrow> pydict \<Rightarrow> pyval \<Rightarrow> pyval \<Rightarrow> py_error + unit"
  sv_radial_yz :: "parent \<Rightarrow> py_error + unit"
  sv_radial_draw :: "parent \<Rightarrow> pydict \<Rightarrow> dbl list \<Rightarrow> dbl list \<Rightarrow> pyval \<Rightarrow> py_error + unit"
  sv_radial_array :: "parent \<Rightarrow> pydict \<Rightarrow> ('img event, unit) res"
  sv_imread :: "string \<Rightarrow> 'img option"
  sv_shape :: "'img \<Rightarrow> nat \<times> nat \<times> nat"
  sv_cvtColor :: "'img \<Rightarrow> 'img"
  sv_video_write :: "'img option \<Rightarrow> py_error option"
  sv_hasimageio :: bool
  sv_interpolate :: "parent \<Rightarrow> pyval \<Rightarrow> ('img event, parent) res"
  sv_interpolate_required :: bool

text \<open>\<^verbatim>\<open>eval(x)\<close>: only a string is an expression; any other value raises.\<close>

definition py_eval :: "'img services \<Rightarrow> pyval \<Rightarrow> py_error + pyval" where
  "py_eval sv v = (case v of PyStr s \<Rightarrow> sv_eval sv s | _ \<Rightarrow> Inl TypeError)"

text \<open>\<^verbatim>\<open>self.parent.db['times'][iplot]\<close>\<close>

definition frame_time :: "parent \<Rightarrow> nat \<Rightarrow> py_error + pyval" where
  "frame_time self iplot =
     (case getitem (p_db self) ''times'' of
        Inl e \<Rightarrow> Inl e
      | Inr ts \<Rightarrow> py_index ts iplot)"

section \<open>Path templates\<close>

text \<open>
  \<^verbatim>\<open>template.format(time=..., iplane=..., iter=...)\<close>. The template is read from left
  to right. \<^verbatim>\<open>{{\<close> and \<^verbatim>\<open>}}\<close> stand for one brace; a lone closing brace and a
  field that is never closed raise \<^verbatim>\<open>ValueError\<close>. A field starts with the name of
  an argument, which ends at the first of \<^verbatim>\<open>. [ ! :\<close>; an empty or all-digit name
  asks for a positional argument, and the calls of this module pass none
  (\<^verbatim>\<open>IndexError\<close>); a name that is not among the keyword arguments raises
  \<^verbatim>\<open>KeyError\<close>. A field that is only a name is replaced by the string conversion
  of the value. Attribute and index access, conversions and format specifications are
  left to the service \<open>sv_format_field\<close>, which gets the value and the two remaining
  parts of the field.
\<close>

datatype fmode = Text | Field string bool | Spec string string nat

definition is_digit :: "char \<Rightarrow> bool" where
  "is_digit c = (c \<in> set ''0123456789'')"

definition fmt_field :: "'img services \<Rightarrow> pydict \<Rightarrow> string \<Rightarrow> string \<Rightarrow> py_error + string" where
  "fmt_field sv kw nm rest =
     (let arg = takeWhile (\<lambda>c. c \<noteq> CHR ''.'' \<and> c \<noteq> CHR ''['') nm;
          acc = dropWhile (\<lambda>c. c \<noteq> CHR ''.'' \<and> c \<noteq> CHR ''['') nm
      in if list_all is_digit arg then Inl IndexError
         else (case kw arg of
                 None \<Rightarrow> Inl (KeyError (PyStr arg))
               | Some v \<Rightarrow>
                   if acc = [] \<and> rest = [] then Inr (sv_str sv v)
                   else sv_format_field sv v acc rest))"

fun fmt_scan :: "'img services \<Rightarrow> pydict \<Rightarrow> fmode \<Rightarrow> string \<Rightarrow> py_error + string" where
  "fmt_scan sv kw Text [] = Inr []"
| "fmt_scan sv kw Text (c # cs) =
     (if c = CHR ''{'' then
        (case cs of
           [] \<Rightarrow> Inl (ValueError ''Single { encountered in format string'')
         | d # ds \<Rightarrow>
             if d = CHR ''{'' then
               (case fmt_scan sv kw Text ds of Inl e \<Rightarrow> Inl e | Inr t \<Rightarrow> Inr (c # t))
             else fmt_scan sv kw (Field [] False) cs)
      else if c = CHR ''}'' then
        (case cs of
           [] \<Rightarrow> Inl (ValueError ''Single } encountered in format string'')
         | d # ds \<Rightarrow>
             if d = CHR ''}'' then
               (case fmt_scan sv kw Text ds of Inl e \<Rightarrow> Inl e | Inr t \<Rightarrow> Inr (c # t))
             else Inl (ValueError ''Single } encountered in format string''))
      else (case fmt_scan sv kw Text cs of Inl e \<Rightarrow> Inl e | Inr t \<Rightarrow> Inr (c # t)))"
| "fmt_scan sv kw (Field nm br) [] = Inl (ValueError ''expected } before end of string'')"
| "fmt_scan sv kw (Field nm br) (c # cs) =
     (if br then fmt_scan sv kw (Field (nm @ [c]) (c \<noteq> CHR '']'')) cs
      else if c = CHR ''{'' then Inl (ValueError ''unexpected { in field name'')
      else if c = CHR ''['' then fmt_scan sv kw (Field (nm @ [c]) True) cs
      else if c = CHR ''}'' then
        (case fmt_field sv kw nm [] of
           Inl e \<Rightarrow> Inl e
         | Inr s \<Rightarrow> (case fmt_scan sv kw Text cs of Inl e \<Rightarrow> Inl e | Inr t \<Rightarrow> Inr (s @ t)))
      else if c = CHR '':'' \<or> c = CHR ''!'' then fmt_scan sv kw (Spec nm [c] 1) cs
      else fmt_scan sv kw (Field (nm @ [c]) False) cs)"
| "fmt_scan sv kw (Spec nm sp k) [] = Inl (ValueError ''unmatched { in format spec'')"
| "fmt_scan sv kw (Spec nm sp k) (c # cs) =
     (if c = CHR ''}'' then
        (if k \<le> 1 then
           (case fmt_field sv kw nm sp of
              Inl e \<Rightarrow> Inl e
            | Inr s \<Rightarrow> (case fmt_scan sv kw Text cs of Inl e \<Rightarrow> Inl e | Inr t \<Rightarrow> Inr (s @ t)))
         else fmt_scan sv kw (Spec nm (sp @ [c]) (k - 1)) cs)
      else if c = CHR ''{'' then fmt_scan sv kw (Spec nm (sp @ [c]) (Suc k)) cs
      else fmt_scan sv kw (Spec nm (sp @ [c]) k) cs)"

text \<open>
  The method call on a configuration value: only a string has \<^verbatim>\<open>format\<close>. The keyword
  arguments are listed as the call site writes them.
\<close>

definition str_format :: "'img services \<Rightarrow> pyval \<Rightarrow> (string \<times> pyval) list \<Rightarrow> py_error + string" where
  "str_format sv tpl kwargs =
     (case tpl of
        PyStr s \<Rightarrow> fmt_scan sv (map_of kwargs) Text s
      | _ \<Rightarrow> Inl AttributeError)"

text \<open>
  \<^verbatim>\<open>os.path.split\<close> on a POSIX path: the tail is what follows the last slash, the head
  is what precedes it, with trailing slashes removed unless the head is slashes only.
\<close>

definition os_path_split :: "string \<Rightarrow> string \<times> string" where
  "os_path_split p =
     (let tail = rev (takeWhile (\<lambda>c. c \<noteq> CHR ''/'') (rev p));
          front = take (length p - length tail) p
      in (if list_ex (\<lambda>c. c \<noteq> CHR ''/'') front
          then rev (dropWhile (\<lambda>c. c = CHR ''/'') (rev front))
          else front,
          tail))"

text \<open>
  \<^verbatim>\<open>
  directory, file_name = os.path.split(name)
  directory += '/'
  os.makedirs(directory, exist_ok=True)
  \<close>
  on a configuration value, which has to be a string.
\<close>

definition make_parent_dir :: "pyval \<Rightarrow> ('img event, unit) res" where
  "make_parent_dir name =
     (case name of
        PyStr s \<Rightarrow> r_emit (MakeDirs (fst (os_path_split s) @ ''/''))
      | _ \<Rightarrow> r_raise TypeError)"

section \<open>Option schemas and their merge with user input\<close>

text \<open>An entry of \<^verbatim>\<open>inputdefs\<close> or \<^verbatim>\<open>actiondefs\<close>, without its help text.\<close>

record optdef =
  od_key :: string
  od_required :: bool
  od_default :: pyval

definition opt :: "string \<Rightarrow> bool \<Rightarrow> pyval \<Rightarrow> optdef" where
  "opt k r d = \<lparr>od_key = k, od_required = r, od_default = d\<rparr>"

text \<open>
  Modelled from the spec: \<^verbatim>\<open>mergedicts\<close> is imported from the package
  \<^verbatim>\<open>postproengine\<close> and its body is not in this module. The spec describes a
  configuration as "a mapping of declared option names to values, defaulted from a
  static schema and merged with user input", and a missing required key as an error
  condition. Keys of the user input that the schema does not declare stay in the
  result: \<^verbatim>\<open>execute\<close> looks the action names up in the merged plane configuration,
  and the schema of a plane declares none of them.
\<close>

definition mergedicts :: "pyval \<Rightarrow> optdef list \<Rightarrow> py_error + pydict" where
  "mergedicts inputs defs =
     (case inputs of
        PyDict kvs \<Rightarrow>
          (case find (\<lambda>d. od_required d \<and> map_of kvs (od_key d) = None) defs of
             Some d \<Rightarrow> Inl (ValueError (''Missing required key '' @ od_key d))
           | None \<Rightarrow> Inr (map_of (map (\<lambda>d. (od_key d, od_default d)) defs) ++ map_of kvs))
      | _ \<Rightarrow> Inl TypeError)"


text \<open>The schemas of the actions (\<^verbatim>\<open>actiondefs\<close> of each inner class).\<close>

definition plot_actiondefs :: "optdef list" where
  "plot_actiondefs =
     [opt ''title'' False (PyStr []),
      opt ''plotfunc'' False
        (PyStr ''lambda db,i: np.sqrt(db['velocityx'][i]**2 + db['velocityy'][i]**2)''),
      opt ''clevels'' False (PyStr ''np.linspace(0, 12, 121)''),
      opt ''cmap'' False (PyStr ''coolwarm''),
      opt ''cbar'' False (PyBool True),
      opt ''cbar_label'' False PyNone,
      opt ''cbar_nticks'' False PyNone,
      opt ''xlabel'' False (PyStr ''X [m]''),
      opt ''ylabel'' False (PyStr ''Y [m]''),
      opt ''xlim'' False PyNone,
      opt ''ylim'' False PyNone,
      opt ''dpi'' False (PyInt 125),
      opt ''figsize'' False (PyList [PyInt 12, PyInt 3]),
      opt ''fontsize'' False (PyInt 14),
      opt ''savefile'' False (PyStr []),
      opt ''postplotfunc'' False (PyStr []),
      opt ''xscalefunc'' False (PyStr ''lambda x: x''),
      opt ''yscalefunc'' False (PyStr ''lambda y: y''),
      opt ''figname'' False PyNone,
      opt ''axesnumfunc'' False PyNone,
      opt ''axesnumfunc'' False PyNone,
      opt ''axisscale'' False (PyStr ''scaled''),
      opt ''plotturbines'' False PyNone]"

definition animate_actiondefs :: "optdef list" where
  "animate_actiondefs =
     [opt ''name'' True (PyStr ''output.mp4''),
      opt ''fps'' False (PyInt 1),
      opt ''imagefilename'' True (PyStr []),
      opt ''times'' False PyNone]"

definition makegif_actiondefs :: "optdef list" where
  "makegif_actiondefs =
     [opt ''name'' True (PyStr ''output.mp4''),
      opt ''fps'' False (PyInt 1),
      opt ''imagefilename'' True (PyStr []),
      opt ''times'' False PyNone]"

definition plot_radial_actiondefs :: "optdef list" where
  "plot_radial_actiondefs =
     [opt ''title'' False (PyStr []),
      opt ''plotfunc'' False (PyStr ''lambda db,i: db['velocityx'][i]''),
      opt ''cmap'' False (PyStr ''coolwarm''),
      opt ''cbar'' False (PyBool True),
      opt ''dpi'' False (PyInt 125),
      opt ''figsize'' False (PyList [PyInt 8, PyInt 5]),
      opt ''savefile'' False (PyStr []),
      opt ''vmin'' False PyNone,
      opt ''vmax'' False PyNone,
      opt ''LR'' True PyNone,
      opt ''NR'' True (PyInt 256),
      opt ''NTheta'' True (PyInt 256)]"

section \<open>Reading the options of an action\<close>

text \<open>
  Each \<^verbatim>\<open>execute\<close> starts by copying entries of its dictionary into local variables,
  some of them through \<^verbatim>\<open>eval\<close>. A read is one such assignment:
  \<open>Plain k\<close> is \<^verbatim>\<open>d[k]\<close>, \<open>Evald k\<close> is \<^verbatim>\<open>eval(d[k])\<close> and \<open>EvaldOpt k\<close> is
  \<^verbatim>\<open>None if d[k] is None else eval(d[k])\<close>. The reads run in the order of the source;
  the first one that raises ends the method. The result holds the local variables by
  the key they were read from.
\<close>

datatype rd = Plain string | Evald string | EvaldOpt string

fun read_opts :: "'img services \<Rightarrow> pydict \<Rightarrow> rd list \<Rightarrow> pydict \<Rightarrow> py_error + pydict" where
  "read_opts sv ad [] loc = Inr loc"
| "read_opts sv ad (Plain k # rs) loc =
     (case getitem ad k of
        Inl e \<Rightarrow> Inl e
      | Inr v \<Rightarrow> read_opts sv ad rs (loc(k \<mapsto> v)))"
| "read_opts sv ad (Evald k # rs) loc =
     (case getitem ad k of
        Inl e \<Rightarrow> Inl e
      | Inr v \<Rightarrow>
          (case py_eval sv v of
             Inl e \<Rightarrow> Inl e
           | Inr w \<Rightarrow> read_opts sv ad rs (loc(k \<mapsto> w))))"
| "read_opts sv ad (EvaldOpt k # rs) loc =
     (case getitem ad k of
        Inl e \<Rightarrow> Inl e
      | Inr v \<Rightarrow>
          if v = PyNone then read_opts sv ad rs (loc(k \<mapsto> PyNone))
          else (case py_eval sv v of
                  Inl e \<Rightarrow> Inl e
                | Inr w \<Rightarrow> read_opts sv ad rs (loc(k \<mapsto> w))))"

text \<open>The key a read looks up.\<close>

fun rd_key :: "rd \<Rightarrow> string" where
  "rd_key (Plain k) = k"
| "rd_key (Evald k) = k"
| "rd_key (EvaldOpt k) = k"

text \<open>A local variable, once the reads have succeeded.\<close>

definition local_var :: "pydict \<Rightarrow> string \<Rightarrow> pyval" where
  "local_var loc k = (case loc k of Some v \<Rightarrow> v | None \<Rightarrow> PyNone)"

section \<open>The plot action\<close>

text \<open>
  The end of a frame, in \<^verbatim>\<open>plot\<close> and in \<^verbatim>\<open>plot_radial\<close>:
  \<^verbatim>\<open>
  if len(savefile)>0:
      savefname = savefile.format(...)
      directory, file_name = os.path.split(savefname)
      directory += '/'
      os.makedirs(directory, exist_ok=True)
      plt.savefig(savefname)
  \<close>
\<close>

definition save_frame :: "'img services \<Rightarrow> pyval \<Rightarrow> (string \<times> pyval) list \<Rightarrow> ('img event, unit) res" where
  "save_frame sv savefile kwargs =
     r_bind (r_lift (py_len savefile)) (\<lambda>n.
       if 0 < n then
         r_bind (r_lift (str_format sv savefile kwargs)) (\<lambda>savefname.
         r_bind (make_parent_dir (PyStr savefname)) (\<lambda>u.
         r_emit (SaveFig savefname)))
       else r_ok ())"

text \<open>
  The colorbar of a frame (lines 281 to 295):
  \<^verbatim>\<open>
  if cbar_inc:
      ...
      cbar=fig.colorbar(c, ax=ax, cax=cax)
      cbar.ax.tick_params(labelsize=fontsize)
      if cbar_label is not None:
          cbar.set_label(cbar_label,fontsize=fontsize)
      if cbar_nticks is not None:
          levels = c.levels
          min_tick = levels[0]
          max_tick = levels[-1]
          new_ticks = np.linspace(min_tick, max_tick, cbar_nticks)
          cbar.set_ticks(new_ticks)
  \<close>
  \<open>levels\<close> is \<^verbatim>\<open>c.levels\<close>, the levels of the contour set just drawn.
\<close>

definition plot_colorbar :: "pyval \<Rightarrow> pyval \<Rightarrow> pyval \<Rightarrow> real list \<Rightarrow> ('img event, unit) res" where
  "plot_colorbar cbar_inc cbar_label cbar_nticks levels =
     (if truthy cbar_inc then
        r_bind (r_emit Colorbar) (\<lambda>u.
        r_bind (if cbar_label \<noteq> PyNone then r_emit (CbarLabel cbar_label) else r_ok ()) (\<lambda>u.
        if cbar_nticks \<noteq> PyNone then
          (case levels of
             [] \<Rightarrow> r_raise IndexError
           | l # ls \<Rightarrow>
               r_bind (r_lift (np_linspace_py (PyFloat (hd levels)) (PyFloat (last levels)) cbar_nticks))
                 (\<lambda>new_ticks. r_emit (CbarTicks new_ticks)))
        else r_ok ()))
      else r_ok ())"

definition plot_reads :: "rd list" where
  "plot_reads =
     [Evald ''plotfunc'', Plain ''title'', Evald ''clevels'', Plain ''cmap'', Plain ''cbar'',
      Plain ''cbar_nticks'', Plain ''cbar_label'', Plain ''xlabel'', Plain ''ylabel'',
      Plain ''xlim'', Plain ''ylim'', Plain ''savefile'', Plain ''dpi'', Plain ''figsize'',
      Plain ''fontsize'', Plain ''postplotfunc'', Evald ''xscalefunc'', Evald ''yscalefunc'',
      Plain ''figname'', EvaldOpt ''axesnumfunc'', Plain ''axisscale'', Plain ''plotturbines'']"

text \<open>One pass of the loop \<^verbatim>\<open>for iplot, i in enumerate(self.parent.iters)\<close>.\<close>

definition plot_frame ::
  "'img services \<Rightarrow> parent \<Rightarrow> pydict \<Rightarrow> pyval \<Rightarrow> nat \<Rightarrow> pyval \<Rightarrow> ('img event, unit) res" where
  "plot_frame sv self loc iplane iplot i =
     r_bind (r_lift (frame_time self iplot)) (\<lambda>time.
     r_bind (r_lift (sv_contourf sv self loc i)) (\<lambda>levels.
     r_bind (plot_colorbar (local_var loc ''cbar'') (local_var loc ''cbar_label'')
               (local_var loc ''cbar_nticks'') levels) (\<lambda>u.
     r_bind (r_lift (sv_decorate sv self loc time i)) (\<lambda>u.
     save_frame sv (local_var loc ''savefile'')
       [(''time'', time), (''iplane'', iplane), (''iter'', i)]))))"

definition plot_execute :: "'img services \<Rightarrow> parent \<Rightarrow> pydict \<Rightarrow> ('img event, unit) res" where
  "plot_execute sv self ad =
     r_bind (r_lift (read_opts sv ad plot_reads Map.empty)) (\<lambda>loc.
     r_bind (r_lift (py_iter (p_iters self))) (\<lambda>its.
     for_enum (plot_frame sv self loc (p_iplane self)) 0 its))"

section \<open>The animate action\<close>

text \<open>
  \<^verbatim>\<open>
  for iplot, i in enumerate(iters):
      time  = self.parent.db['times'][iplot]
      images.append(imagefilename.format(time=time, iplane=iplane,iter=i))
  \<close>
\<close>

definition animate_images :: "'img services \<Rightarrow> parent \<Rightarrow> pyval \<Rightarrow> pyval list \<Rightarrow> py_error + string list" where
  "animate_images sv self imagefilename its =
     collect_enum (\<lambda>iplot i.
       case frame_time self iplot of
         Inl e \<Rightarrow> Inl e
       | Inr time \<Rightarrow>
           str_format sv imagefilename
             [(''time'', time), (''iplane'', p_iplane self), (''iter'', i)]) 0 its"

text \<open>\<^verbatim>\<open>for image in images: video.write(cv2.imread(os.path.join(image)))\<close>\<close>

fun write_frames :: "'img services \<Rightarrow> string list \<Rightarrow> ('img event, unit) res" where
  "write_frames sv [] = r_ok ()"
| "write_frames sv (fname # rest) =
     r_bind (case sv_video_write sv (sv_imread sv fname) of
               Some e \<Rightarrow> r_raise e
             | None \<Rightarrow> r_emit (VideoWrite (sv_imread sv fname)))
       (\<lambda>u. write_frames sv rest)"

text \<open>
  \<^verbatim>\<open>cv2.imread\<close> returns \<^verbatim>\<open>None\<close> for a file it cannot read, and \<^verbatim>\<open>None\<close> has no
  attribute \<^verbatim>\<open>shape\<close>; \<^verbatim>\<open>images[0]\<close> raises on an empty list.
\<close>

definition animate_execute :: "'img services \<Rightarrow> parent \<Rightarrow> pydict \<Rightarrow> ('img event, unit) res" where
  "animate_execute sv self ad =
     r_bind (r_lift (getitem ad ''name'')) (\<lambda>video_name.
     r_bind (make_parent_dir video_name) (\<lambda>u.
     r_bind (r_lift (getitem ad ''fps'')) (\<lambda>fps.
     r_bind (r_lift (getitem ad ''imagefilename'')) (\<lambda>imagefilename.
     r_bind (r_lift (py_iter (p_iters self))) (\<lambda>its.
     r_bind (r_lift (animate_images sv self imagefilename its)) (\<lambda>images.
       case images of
         [] \<Rightarrow> r_raise IndexError
       | first # others \<Rightarrow>
           (case sv_imread sv first of
              None \<Rightarrow> r_raise AttributeError
            | Some frame \<Rightarrow>
                (case sv_shape sv frame of
                   (height, width, layers) \<Rightarrow>
                     r_bind (r_emit (VideoOpen video_name fps (width, height))) (\<lambda>u.
                     r_bind (write_frames sv images) (\<lambda>u.
                     r_emit VideoRelease))))))))))"

section \<open>The makegif action\<close>

text \<open>
  The override of the time sequence:
  \<^verbatim>\<open>
  try:
      times = eval(self.actiondict['times'])
      override_times = True
  except:
      times = None
      override_times = False
  \<close>
  The bare \<^verbatim>\<open>except\<close> catches whatever the lookup or the evaluation raises.
\<close>

definition makegif_times :: "'img services \<Rightarrow> pydict \<Rightarrow> pyval \<times> bool" where
  "makegif_times sv ad =
     (case getitem ad ''times'' of
        Inl e \<Rightarrow> (PyNone, False)
      | Inr src \<Rightarrow>
          (case py_eval sv src of
             Inl e \<Rightarrow> (PyNone, False)
           | Inr v \<Rightarrow> (v, True)))"

text \<open>
  The list of frame file names:
  \<^verbatim>\<open>
  if override_times:
      iters = range(len(times))
  else:
      iters = self.parent.iters
  for iplot, i in enumerate(iters):
      if override_times:
          time = times[iplot]
      else:
          time  = self.parent.db['times'][iplot]
      images.append(imagefilename.format(time=time, iplane=iplane))
  \<close>
\<close>

definition makegif_images :: "'img services \<Rightarrow> parent \<Rightarrow> pydict \<Rightarrow> pyval \<Rightarrow> py_error + string list" where
  "makegif_images sv self ad imagefilename =
     (case makegif_times sv ad of
        (tvals, override_times) \<Rightarrow>
          (case (if override_times
                 then (case py_len tvals of
                         Inl e \<Rightarrow> Inl e
                       | Inr n \<Rightarrow> Inr (map (\<lambda>j. PyInt (int j)) [0..<n]))
                 else py_iter (p_iters self)) of
             Inl e \<Rightarrow> Inl e
           | Inr its \<Rightarrow>
               collect_enum (\<lambda>iplot i.
                 case (if override_times then py_index tvals iplot
                       else frame_time self iplot) of
                   Inl e \<Rightarrow> Inl e
                 | Inr time \<Rightarrow>
                     str_format sv imagefilename
                       [(''time'', time), (''iplane'', p_iplane self)]) 0 its))"

text \<open>
  \<^verbatim>\<open>
  for f in images:
      img = cv2.imread(f)
      if img is not None:
          img_rgb = cv2.cvtColor(img, cv2.COLOR_BGR2RGB)
          imagedat.append(img_rgb)
  \<close>
\<close>

fun read_frames :: "'img services \<Rightarrow> string list \<Rightarrow> 'img list" where
  "read_frames sv [] = []"
| "read_frames sv (f # fs) =
     (case sv_imread sv f of
        None \<Rightarrow> read_frames sv fs
      | Some img \<Rightarrow> sv_cvtColor sv img # read_frames sv fs)"

text \<open>
  Without the optional module \<^verbatim>\<open>imageio\<close> the method prints a message and returns.
\<close>

definition makegif_execute :: "'img services \<Rightarrow> parent \<Rightarrow> pydict \<Rightarrow> ('img event, unit) res" where
  "makegif_execute sv self ad =
     (if \<not> sv_hasimageio sv then r_ok ()
      else
        r_bind (r_lift (getitem ad ''name'')) (\<lambda>video_name.
        r_bind (make_parent_dir video_name) (\<lambda>u.
        r_bind (r_lift (getitem ad ''fps'')) (\<lambda>fps.
        r_bind (r_lift (getitem ad ''imagefilename'')) (\<lambda>imagefilename.
        r_bind (r_lift (makegif_images sv self ad imagefilename)) (\<lambda>images.
        r_emit (MimSave video_name (read_frames sv images) fps)))))))"

section \<open>The plot_radial action\<close>

definition plot_radial_reads :: "rd list" where
  "plot_radial_reads =
     [Evald ''plotfunc'', Plain ''title'', Plain ''cmap'', Plain ''cbar'', Plain ''savefile'',
      Plain ''dpi'', Plain ''figsize'', Plain ''NR'', Plain ''NTheta'', Plain ''LR'',
      Plain ''vmin'', Plain ''vmax'', Plain ''xc'', Plain ''yc'']"

text \<open>
  One pass of the loop. \<^verbatim>\<open>LR = r[-1]\<close> raises on an empty radial grid. The name passed
  to \<^verbatim>\<open>savefig\<close> is \<^verbatim>\<open>savefile.format(time=time, iplane=iplane)\<close>.
\<close>

definition plot_radial_frame ::
  "'img services \<Rightarrow> parent \<Rightarrow> pydict \<Rightarrow> dbl list \<Rightarrow> dbl list \<Rightarrow> pyval \<Rightarrow> nat \<Rightarrow> pyval
     \<Rightarrow> ('img event, unit) res" where
  "plot_radial_frame sv self loc r theta iplane iplot i =
     r_bind (r_lift (sv_radial_yz sv self)) (\<lambda>u.
     r_bind (r_lift (frame_time self iplot)) (\<lambda>time.
     r_bind (if r = [] then r_raise IndexError else r_ok ()) (\<lambda>u.
     r_bind (r_lift (sv_radial_draw sv self loc r theta i)) (\<lambda>u.
     save_frame sv (local_var loc ''savefile'')
       [(''time'', time), (''iplane'', iplane)]))))"

text \<open>
  \<^verbatim>\<open>plot_radial.execute\<close>: the options are read, the polar grid is built, and the
  frames are drawn. The numeric library takes a scalar or a sequence as the radial
  extent; with a list or an array object it returns an array of radial grids, and what
  becomes of the run is left to \<open>sv_radial_array\<close>.
\<close>

fun is_sequence :: "pyval \<Rightarrow> bool" where
  "is_sequence (PyList xs) = True"
| "is_sequence (PyObj s) = True"
| "is_sequence v = False"

definition plot_radial_execute :: "'img services \<Rightarrow> parent \<Rightarrow> pydict \<Rightarrow> ('img event, unit) res" where
  "plot_radial_execute sv self ad =
     r_bind (r_lift (read_opts sv ad plot_radial_reads Map.empty)) (\<lambda>loc.
     if is_sequence (local_var loc ''LR'') then sv_radial_array sv self loc
     else
       r_bind (r_lift (polar_grid (local_var loc ''LR'') (local_var loc ''NR'')
                         (local_var loc ''NTheta''))) (\<lambda>grid.
       r_bind (r_lift (py_iter (p_iters self))) (\<lambda>its.
       for_enum (plot_radial_frame sv self loc (fst grid) (snd grid) (p_iplane self)) 0 its)))"

section \<open>The dispatcher\<close>

text \<open>
  A registered action class: its name, its \<^verbatim>\<open>required\<close> flag, and what
  \<^verbatim>\<open>action(self, config).execute()\<close> does, the constructor included. The plugin
  object is passed by reference, so an action may leave it changed.
\<close>

record 'img action =
  actionname :: string
  required :: bool
  construct_execute :: "parent \<Rightarrow> pyval \<Rightarrow> ('img event, parent) res"


text \<open>
  The statement of the loop to which \<^verbatim>\<open>run_actions\<close> is compared: the registered
  actions whose key is in the plane configuration, each with the value under its key, in
  registration order, and the run of such a list, one \<^verbatim>\<open>action(self, config).execute()\<close>
  after the other on the plugin object the one before has left.
\<close>

definition present :: "'img action list \<Rightarrow> pydict \<Rightarrow> ('img action \<times> pyval) list" where
  "present acts plane =
     List.map_filter (\<lambda>a. map_option (\<lambda>cfg. (a, cfg)) (plane (actionname a))) acts"








section \<open>The registry\<close>

text \<open>
  The classes decorated with \<^verbatim>\<open>registeraction\<close>, in the order of the class body. The
  constructor of each merges its input with the schema of the action. The interpolate
  action derives from a template that is not part of this module; what it does and its
  \<^verbatim>\<open>required\<close> flag are services.
\<close>

definition act ::
  "optdef list \<Rightarrow> (parent \<Rightarrow> pydict \<Rightarrow> ('img event, unit) res) \<Rightarrow> parent \<Rightarrow> pyval
     \<Rightarrow> ('img event, parent) res" where
  "act defs exec self inputs =
     r_bind (r_lift (mergedicts inputs defs)) (\<lambda>actiondict.
     r_bind (exec self actiondict) (\<lambda>u. r_ok self))"

definition actionlist :: "'img services \<Rightarrow> 'img action list" where
  "actionlist sv =
     [\<lparr>actionname = ''plot'', required = False,
        construct_execute = act plot_actiondefs (plot_execute sv)\<rparr>,
      \<lparr>actionname = ''interpolate'', required = sv_interpolate_required sv,
        construct_execute = sv_interpolate sv\<rparr>,
      \<lparr>actionname = ''animate'', required = False,
        construct_execute = act animate_actiondefs (animate_execute sv)\<rparr>,
      \<lparr>actionname = ''makegif'', required = False,
        construct_execute = act makegif_actiondefs (makegif_execute sv)\<rparr>,
      \<lparr>actionname = ''plot_radial'', required = False,
        construct_execute = act plot_radial_actiondefs (plot_radial_execute sv)\<rparr>]"

section \<open>A small instance\<close>

text \<open>
  An instance of the services on which the model can be run: images are numbers, the
  evaluator knows one list expression and one broken expression and turns every other
  text into an opaque object, every plotting call succeeds, and only the files
  \<^verbatim>\<open>f_10.0.png\<close> and \<^verbatim>\<open>f_5.0.png\<close> can be read. The loaded plane has two time steps.
\<close>

definition ex_str :: "pyval \<Rightarrow> string" where
  "ex_str v =
     (case v of
        PyInt n \<Rightarrow> (if n = 0 then ''0'' else if n = 1 then ''1'' else ''n'')
      | PyFloat x \<Rightarrow>
          (if x = 5 then ''5.0'' else if x = 10 then ''10.0'' else if x = 20 then ''20.0'' else ''x'')
      | PyStr s \<Rightarrow> s
      | _ \<Rightarrow> ''?'')"

definition ex_db :: pydict where
  "ex_db = [''times'' \<mapsto> PyList [PyFloat 10, PyFloat 20],
            ''timesteps'' \<mapsto> PyList [PyInt 0, PyInt 1]]"

definition ex_sv :: "nat services" where
  "ex_sv =
     \<lparr>sv_eval = (\<lambda>s. if s = ''[5.0]'' then Inr (PyList [PyFloat 5])
                     else if s = ''1 +'' then Inl (OtherError ''SyntaxError'')
                     else Inr (PyObj s)),
      sv_str = ex_str,
      sv_format_field = (\<lambda>v acc rest. Inl (OtherError ''format'')),
      sv_getPlaneXR = (\<lambda>args. Inr ex_db),
      sv_compute_axis1axis2_coords = (\<lambda>db. Inr db),
      sv_contourf = (\<lambda>self loc i. Inr [0, 6, 12]),
      sv_decorate = (\<lambda>self loc t i. Inr ()),
      sv_radial_yz = (\<lambda>self. Inr ()),
      sv_radial_draw = (\<lambda>self loc r theta i. Inr ()),
      sv_radial_array = (\<lambda>self loc. r_ok ()),
      sv_imread = (\<lambda>f. if f = ''f_10.0.png'' then Some 7
                       else if f = ''f_5.0.png'' then Some 5 else None),
      sv_shape = (\<lambda>img. (4, 6, 3)),
      sv_cvtColor = (\<lambda>img. img),
      sv_video_write = (\<lambda>img. None),
      sv_hasimageio = True,
      sv_interpolate = (\<lambda>self cfg. r_ok self),
      sv_interpolate_required = False\<rparr>"

definition ex_self :: parent where
  "ex_self =
     \<lparr>p_xaxis = PyStr ''x'', p_yaxis = PyStr ''y'', p_times = PyNone, p_trange = PyNone,
      p_iplane = PyInt 0, p_db = ex_db, p_iters = PyList [PyInt 0, PyInt 1]\<rparr>"





text \<open>
  A \<^verbatim>\<open>plot_radial\<close> configuration as a user writes it: a radial extent of 89 with two
  radial and six angular samples, around the point (0, 90).
\<close>

definition ex_radial :: pyval where
  "ex_radial =
     PyDict [(''LR'', PyInt 89), (''NR'', PyInt 2), (''NTheta'', PyInt 6),
             (''xc'', PyInt 0), (''yc'', PyInt 90)]"

section \<open>Basic facts about computations and option reads\<close>

lemma r_bind_ok [simp]: "r_bind (r_ok x) f = f x"
  by (simp add: r_bind_def r_ok_def)

lemma r_bind_raise [simp]: "r_bind (r_raise e) f = ([], Inl e)"
  by (simp add: r_bind_def r_raise_def)

lemma r_bind_lift_Inr [simp]: "r_bind (r_lift (Inr x)) f = f x"
  by (simp add: r_bind_def r_lift_def)

lemma r_bind_lift_Inl [simp]: "r_bind (r_lift (Inl e)) f = ([], Inl e)"
  by (simp add: r_bind_def r_lift_def)

lemma r_bind_emit [simp]: "r_bind (r_emit ev) f = (ev # fst (f ()), snd (f ()))"
  by (simp add: r_bind_def r_emit_def)

lemma r_bind_pair_Inr [simp]: "r_bind (evs, Inr x) f = (evs @ fst (f x), snd (f x))"
  by (simp add: r_bind_def)

lemma r_bind_pair_Inl [simp]: "r_bind (evs, Inl e) f = (evs, Inl e)"
  by (simp add: r_bind_def)

lemma r_bind_InrD:
  assumes "r_bind m f = (evs, Inr y)"
  obtains e1 x e2 where "m = (e1, Inr x)" and "f x = (e2, Inr y)" and "evs = e1 @ e2"
proof (cases m)
  case (Pair e1 r)
  show ?thesis
  proof (cases r)
    case (Inl e)
    then show ?thesis using assms Pair by simp
  next
    case (Inr x)
    then show ?thesis using assms Pair that [of e1 x "fst (f x)"] by (cases "f x") auto
  qed
qed

lemma r_lift_InrD:
  assumes "r_bind (r_lift r) f = (evs, Inr y)"
  obtains x where "r = Inr x" and "f x = (evs, Inr y)"
  using assms by (cases r) auto

lemma read_opts_step:
  assumes "read_opts sv ad (r # rs) loc = Inr loc'"
  obtains v where "ad (rd_key r) \<noteq> None" and "read_opts sv ad rs (loc(rd_key r \<mapsto> v)) = Inr loc'"
    and "r = Plain (rd_key r) \<longrightarrow> ad (rd_key r) = Some v"
proof (cases r)
  case (Plain k)
  then show ?thesis using assms that
    by (cases "ad k") (simp_all add: getitem_def)
next
  case (Evald k)
  then show ?thesis using assms that
    by (cases "ad k") (auto simp: getitem_def split: sum.splits)
next
  case (EvaldOpt k)
  then show ?thesis using assms that
    by (cases "ad k") (auto simp: getitem_def split: sum.splits if_splits)
qed

lemma read_opts_other:
  assumes "read_opts sv ad rs loc = Inr loc'" and "k \<notin> rd_key ` set rs"
  shows "loc' k = loc k"
  using assms
proof (induction rs arbitrary: loc)
  case Nil
  then show ?case by simp
next
  case (Cons r rs)
  from Cons.prems(1) obtain v where
    step: "read_opts sv ad rs (loc(rd_key r \<mapsto> v)) = Inr loc'"
    by (rule read_opts_step)
  have "k \<notin> rd_key ` set rs" and "k \<noteq> rd_key r"
    using Cons.prems(2) by auto
  then show ?case using Cons.IH [OF step] by simp
qed

lemma read_opts_plain:
  assumes "read_opts sv ad rs loc = Inr loc'" and "Plain k \<in> set rs"
    and "\<forall>r \<in> set rs. rd_key r = k \<longrightarrow> r = Plain k"
  shows "loc' k = ad k \<and> ad k \<noteq> None"
  using assms
proof (induction rs arbitrary: loc)
  case Nil
  then show ?case by simp
next
  case (Cons r rs)
  from Cons.prems(1) obtain v where
    step: "read_opts sv ad rs (loc(rd_key r \<mapsto> v)) = Inr loc'"
    and present: "ad (rd_key r) \<noteq> None"
    and val: "r = Plain (rd_key r) \<longrightarrow> ad (rd_key r) = Some v"
    by (rule read_opts_step)
  show ?case
  proof (cases "Plain k \<in> set rs")
    case True
    moreover have "\<forall>r \<in> set rs. rd_key r = k \<longrightarrow> r = Plain k"
      using Cons.prems(3) by simp
    ultimately show ?thesis using Cons.IH [OF step] by blast
  next
    case False
    then have r: "r = Plain k" using Cons.prems(2) by simp
    have notin: "k \<notin> rd_key ` set rs"
    proof
      assume "k \<in> rd_key ` set rs"
      then obtain q where "q \<in> set rs" "rd_key q = k" by auto
      then show False using Cons.prems(3) False by auto
    qed
    have "loc' k = (loc(rd_key r \<mapsto> v)) k"
      by (rule read_opts_other [OF step notin])
    then show ?thesis using r val by simp
  qed
qed

lemma local_var_plain:
  assumes "read_opts sv ad rs loc = Inr loc'" and "Plain k \<in> set rs"
    and "\<forall>r \<in> set rs. rd_key r = k \<longrightarrow> r = Plain k"
  shows "ad k = Some (local_var loc' k)"
  using read_opts_plain [OF assms] by (auto simp: local_var_def)

section \<open>Rounding to double precision\<close>

text \<open>
  The rounded value is within half a unit in the last place of the exact one: relatively
  within \<open>2^-53\<close> in the normal range, absolutely within \<open>2^-1075\<close> below it.
\<close>

lemma round_even_err: "\<bar>of_int (round_even y) - y\<bar> \<le> 1 / 2"
proof -
  have "of_int \<lfloor>y\<rfloor> \<le> y" "y < of_int \<lfloor>y\<rfloor> + 1" by linarith+
  then show ?thesis
    by (auto simp: round_even_def Let_def)
qed

lemma round_even_of_int [simp]: "round_even (of_int k) = k"
  by (simp add: round_even_def)

lemma round_even_0 [simp]: "round_even 0 = 0"
  using round_even_of_int [of 0] by simp

lemma bexp_ge: "- 1022 \<le> bexp n x"
  by (induction n) auto

lemma bexp_le: "bexp n x \<le> int n - 1022"
  by (induction n) auto

lemma bexp_lower: "2 powi (- 1022) \<le> \<bar>x\<bar> \<Longrightarrow> 2 powi (bexp n x) \<le> \<bar>x\<bar>"
  by (induction n) auto

lemma bexp_upper: "\<bar>x\<bar> < 2 powi (int n - 1021) \<Longrightarrow> \<bar>x\<bar> < 2 powi (bexp n x + 1)"
proof (induction n)
  case 0
  then show ?case by simp
next
  case (Suc n)
  show ?case
  proof (cases "2 powi (int n - 1021) \<le> \<bar>x\<bar>")
    case True
    have "int (Suc n) - 1021 = int n - 1021 + 1" by simp
    then show ?thesis using True Suc.prems by simp
  next
    case False
    then show ?thesis using Suc.IH by simp
  qed
qed

lemma bexp_small: "\<bar>x\<bar> < 2 powi (- 1022) \<Longrightarrow> bexp n x = - 1022"
proof (induction n)
  case 0
  then show ?case by simp
next
  case (Suc n)
  have "(2::real) powi (- 1022) \<le> 2 powi (int n - 1021)"
    by (rule power_int_increasing) simp_all
  then show ?case using Suc by simp
qed

lemma dbl_exponent_range: "- 1022 \<le> dbl_exponent x" "dbl_exponent x \<le> 1023"
  using bexp_ge [of 2045 x] bexp_le [of 2045 x] by (simp_all add: dbl_exponent_def)

lemma dbl_exponent_eq:
  assumes "2 powi e \<le> \<bar>x\<bar>" and "\<bar>x\<bar> < 2 powi (e + 1)" and "- 1022 \<le> e" and "e \<le> 1023"
  shows "dbl_exponent x = e"
proof -
  let ?e = "bexp 2045 x"
  have "(2::real) powi (- 1022) \<le> 2 powi e"
    using assms(3) by (intro power_int_increasing) simp_all
  then have lo: "2 powi ?e \<le> \<bar>x\<bar>" using assms(1) by (intro bexp_lower) simp
  have "(2::real) powi (e + 1) \<le> 2 powi (int 2045 - 1021)"
    using assms(4) by (intro power_int_increasing) simp_all
  then have hi: "\<bar>x\<bar> < 2 powi (?e + 1)" using assms(2) by (intro bexp_upper) simp
  have "(2::real) powi e < 2 powi (?e + 1)" using assms(1) hi by simp
  moreover have "(2::real) powi (?e + 1) \<le> 2 powi e" if "?e + 1 \<le> e"
    using that by (intro power_int_increasing) simp_all
  ultimately have 1: "e < ?e + 1" by force
  have "(2::real) powi ?e < 2 powi (e + 1)" using assms(2) lo by simp
  moreover have "(2::real) powi (e + 1) \<le> 2 powi ?e" if "e + 1 \<le> ?e"
    using that by (intro power_int_increasing) simp_all
  ultimately have 2: "?e < e + 1" by force
  show ?thesis using 1 2 by (simp add: dbl_exponent_def)
qed

lemma dbl_exponent_small: "\<bar>x\<bar> < 2 powi (- 1022) \<Longrightarrow> dbl_exponent x = - 1022"
  by (simp add: dbl_exponent_def bexp_small)

lemma round_double_err:
  "\<bar>round_double x - x\<bar> \<le> 2 powi (dbl_exponent x - 53)"
proof -
  define q :: real where "q = 2 powi (dbl_exponent x - 52)"
  have q: "0 < q" by (simp add: q_def)
  have "round_double x - x = q * (of_int (round_even (x / q)) - x / q)"
    using q by (simp add: round_double_def q_def algebra_simps)
  then have "\<bar>round_double x - x\<bar> = q * \<bar>of_int (round_even (x / q)) - x / q\<bar>"
    using q by (simp add: abs_mult)
  also have "\<dots> \<le> q * (1 / 2)"
    using q round_even_err [of "x / q"] by (intro mult_left_mono) simp_all
  also have "q * (1 / 2) = 2 powi (dbl_exponent x - 53)"
    by (simp add: q_def power_int_diff)
  finally show ?thesis .
qed

lemma round_double_rel:
  assumes "2 powi (- 1022) \<le> \<bar>x\<bar>"
  shows "\<bar>round_double x - x\<bar> \<le> \<bar>x\<bar> / 2 ^ 53"
proof -
  have lo: "2 powi (dbl_exponent x) \<le> \<bar>x\<bar>"
    unfolding dbl_exponent_def using assms by (rule bexp_lower)
  have "(2::real) powi (dbl_exponent x - 53) = 2 powi (dbl_exponent x) / 2 ^ 53"
    by (simp add: power_int_diff)
  also have "\<dots> \<le> \<bar>x\<bar> / 2 ^ 53"
    using lo by (simp add: divide_right_mono)
  finally show ?thesis using round_double_err [of x] by simp
qed

lemma round_double_gen:
  "\<bar>round_double x - x\<bar> \<le> \<bar>x\<bar> / 2 ^ 53 + 1 / 2 ^ 1075"
proof (cases "2 powi (- 1022) \<le> \<bar>x\<bar>")
  case True
  then show ?thesis using round_double_rel [of x] by simp
next
  case False
  then have "dbl_exponent x = - 1022" by (simp add: dbl_exponent_small)
  then have "\<bar>round_double x - x\<bar> \<le> 2 powi (- 1075)"
    using round_double_err [of x] by simp
  also have "(2::real) powi (- 1075) = 1 / 2 ^ 1075"
    by (simp add: power_int_minus divide_simps)
  finally show ?thesis
    by (smt (verit) divide_nonneg_nonneg abs_ge_zero zero_le_power zero_le_numeral)
qed

lemma round_double_0 [simp]: "round_double 0 = 0"
  by (simp add: round_double_def)

lemma round_double_eval:
  assumes "2 powi e \<le> \<bar>x\<bar>" and "\<bar>x\<bar> < 2 powi (e + 1)" and "- 1022 \<le> e" and "e \<le> 1023"
  shows "round_double x = 2 powi (e - 52) * of_int (round_even (x / 2 powi (e - 52)))"
  using dbl_exponent_eq [OF assms] by (simp add: round_double_def)

lemma rd_eval:
  assumes "2 powi e \<le> \<bar>x\<bar>" and "\<bar>x\<bar> < 2 powi (e + 1)" and "- 1022 \<le> e" and "e \<le> 1023"
    and "round_even (x / 2 powi (e - 52)) = k"
  shows "round_double x = of_int k * 2 powi (e - 52)"
  using round_double_eval [OF assms(1-4)] assms(5) by simp

text \<open>
  Numeral powers are evaluated before linear arithmetic is called.
\<close>

lemmas pow_eval = power_numeral Num.pow.simps Num.sqr.simps Num.mult_num_simps

text \<open>A real that is far enough from the overflow threshold rounds to a finite value.\<close>

lemma d_round_Fin: "\<bar>round_double x\<bar> < 2 ^ 1024 \<Longrightarrow> d_round x = Fin (round_double x)"
  by (auto simp: d_round_def Let_def)

lemma round_double_abs_le: "\<bar>round_double x\<bar> \<le> \<bar>x\<bar> + \<bar>x\<bar> / 2 ^ 53 + 1 / 2 ^ 1075"
  using round_double_gen [of x] by linarith

lemma d_round_Fin_le:
  assumes "\<bar>x\<bar> \<le> 7 * 2 ^ 1021"
  shows "d_round x = Fin (round_double x)"
proof (rule d_round_Fin)
  have "\<bar>round_double x\<bar> \<le> \<bar>x\<bar> + \<bar>x\<bar> / 2 ^ 53 + 1 / 2 ^ 1075"
    by (rule round_double_abs_le)
  also have "\<dots> \<le> 7 * 2 ^ 1021 + 7 * 2 ^ 1021 / 2 ^ 53 + 1 / 2 ^ 1075"
    using assms by (intro add_mono divide_right_mono) simp_all
  also have "\<dots> < 2 ^ 1024" by simp
  finally show "\<bar>round_double x\<bar> < 2 ^ 1024" .
qed

section \<open>The polar grid\<close>

lemma butlast_map_upt: "butlast (map f [0..<n]) = map f [0..<n - 1]"
  by (cases n) (simp_all add: butlast_append)

text \<open>The samples of \<^verbatim>\<open>np.linspace\<close> for a count that is not negative.\<close>

lemma np_linspace_struct:
  assumes "0 \<le> num"
  shows "np_linspace a b num =
     Inr (let n = nat num;
              dv = n - 1;
              delta = d_sub (Fin b) (Fin a);
              step = d_div_nat delta dv;
              f = (\<lambda>i. d_add
                     (if 0 < dv
                      then (if step = Fin 0 then d_mul (d_div_nat (Fin (real i)) dv) delta
                            else d_mul (Fin (real i)) step)
                      else d_mul (Fin (real i)) delta)
                     (Fin a))
          in if 1 < n then map f [0..<n - 1] @ [Fin b] else map f [0..<n])"
  using assms by (simp add: np_linspace_def Let_def butlast_map_upt o_def)

lemma np_linspace_length:
  assumes "0 \<le> num"
  shows "\<exists>ys. np_linspace a b num = Inr ys \<and> length ys = nat num"
  using assms by (auto simp: np_linspace_struct Let_def)

text \<open>\<^verbatim>\<open>2 * np.pi\<close> is a double.\<close>

lemma two_pi_double: "round_double (2 * np_pi) = 2 * np_pi"
proof -
  have "round_double (2 * np_pi) =
          2 powi (2 - 52) * of_int (round_even (2 * np_pi / 2 powi (2 - 52)))"
    by (rule round_double_eval) (simp_all add: np_pi_def)
  also have "\<dots> = 2 * np_pi"
    by (simp add: np_pi_def round_even_def Let_def power_int_minus)
  finally show ?thesis .
qed

text \<open>The rounded angular step and the entries of the angular grid.\<close>

lemma theta_step:
  assumes "1 \<le> nt" and "nt \<le> 2 ^ 50"
  shows "\<bar>round_double (2 * np_pi / real_of_int nt) - 2 * np_pi / real_of_int nt\<bar>
           \<le> 2 * np_pi / real_of_int nt / 2 ^ 53"
    and "6 / 2 ^ 50 \<le> 2 * np_pi / real_of_int nt"
    and "2 * np_pi / real_of_int nt \<le> 7"
proof -
  let ?w = "2 * np_pi / real_of_int nt"
  have n: "1 \<le> real_of_int nt" "real_of_int nt \<le> 2 ^ 50"
    using assms by (simp_all add: of_int_le_numeral_power_cancel_iff [symmetric] del: of_int_le_numeral_power_cancel_iff)
  have T: "6 \<le> 2 * np_pi" "2 * np_pi \<le> 7" by (simp_all add: np_pi_def)
  have "6 / 2 ^ 50 \<le> 2 * np_pi / 2 ^ 50" using T by (simp add: divide_right_mono)
  also have "\<dots> \<le> ?w" using n T by (intro divide_left_mono) simp_all
  finally show lo: "6 / 2 ^ 50 \<le> ?w" .
  have "?w \<le> 2 * np_pi / 1" using n T by (intro divide_left_mono) simp_all
  then show "?w \<le> 7" using T by simp
  have "(2::real) powi (- 1022) \<le> 6 / 2 ^ 50"
    by (simp add: power_int_minus divide_simps)
  then have "2 powi (- 1022) \<le> \<bar>?w\<bar>" using lo by linarith
  then have "\<bar>round_double ?w - ?w\<bar> \<le> \<bar>?w\<bar> / 2 ^ 53" by (rule round_double_rel)
  moreover have "0 \<le> ?w" using n T by (intro divide_nonneg_nonneg) linarith+
  then have "\<bar>?w\<bar> = ?w" by (rule abs_of_nonneg)
  ultimately show "\<bar>round_double ?w - ?w\<bar> \<le> ?w / 2 ^ 53" by (simp only:)
qed


lemma theta_entry:
  assumes "1 \<le> nt" and "nt \<le> 2 ^ 50" and "i \<le> nat nt"
  defines "s \<equiv> round_double (2 * np_pi / real_of_int nt)"
  shows "\<bar>round_double (round_double (real i * s)) - real i * s\<bar> \<le> 3 * (real i * s) / 2 ^ 53"
    and "0 \<le> real i * s" and "real i * s \<le> 8"
    and "\<bar>round_double (real i * s)\<bar> \<le> 9"
    and "0 < s" and "real_of_int nt * s \<le> 2 * np_pi + 2 * np_pi / 2 ^ 53"
proof -
  define w where "w = 2 * np_pi / real_of_int nt"
  note st = theta_step [OF assms(1,2), folded w_def]
  have s: "w - w / 2 ^ 53 \<le> s" "s \<le> w + w / 2 ^ 53"
    using st(1) unfolding s_def w_def [symmetric] by linarith+
  show s0: "0 < s" using s(1) st(2) unfolding pow_eval by linarith
  have nt: "0 < real_of_int nt" using assms(1) by simp
  have ntw: "real_of_int nt * w = 2 * np_pi" using nt by (simp add: w_def)
  have "real_of_int nt * s \<le> real_of_int nt * (w + w / 2 ^ 53)"
    using s(2) nt by (intro mult_left_mono) simp_all
  also have "\<dots> = real_of_int nt * w + real_of_int nt * w / 2 ^ 53"
    by (simp add: algebra_simps)
  finally show ns: "real_of_int nt * s \<le> 2 * np_pi + 2 * np_pi / 2 ^ 53"
    unfolding ntw .
  have "int i \<le> nt" using assms(1,3) by linarith
  then have "real_of_int (int i) \<le> real_of_int nt" by (simp only: of_int_le_iff)
  then have i: "real i \<le> real_of_int nt" by simp
  show A0: "0 \<le> real i * s" using s0 by simp
  have "real i * s \<le> real_of_int nt * s"
    using i s0 by (intro mult_right_mono) simp_all
  then have A7: "real i * s \<le> 2 * np_pi + 2 * np_pi / 2 ^ 53" using ns by linarith
  then show A8: "real i * s \<le> 8" by (simp add: np_pi_def)
  show "\<bar>round_double (round_double (real i * s)) - real i * s\<bar> \<le> 3 * (real i * s) / 2 ^ 53"
    and "\<bar>round_double (real i * s)\<bar> \<le> 9"
  proof -
    have "\<bar>round_double (round_double (real i * s)) - real i * s\<bar> \<le> 3 * (real i * s) / 2 ^ 53
          \<and> \<bar>round_double (real i * s)\<bar> \<le> 9"
    proof (cases "i = 0")
      case True
      then show ?thesis by simp
    next
      case False
      then have "1 \<le> real i" by simp
      then have "1 * s \<le> real i * s" using s0 by (intro mult_right_mono) simp_all
      then have As: "s \<le> real i * s" by simp
      have slo: "5 / 2 ^ 50 \<le> s" using s(1) st(2) unfolding pow_eval by linarith
      have p: "(2::real) powi (- 1022) \<le> 4 / 2 ^ 50"
        by (simp add: power_int_minus divide_simps)
      have "4 / 2 ^ 50 \<le> \<bar>real i * s\<bar>" using slo As unfolding pow_eval by linarith
      then have "2 powi (- 1022) \<le> \<bar>real i * s\<bar>" using p by (rule order_trans [rotated])
      then have "\<bar>round_double (real i * s) - real i * s\<bar> \<le> \<bar>real i * s\<bar> / 2 ^ 53"
        by (rule round_double_rel)
      then have y: "\<bar>round_double (real i * s) - real i * s\<bar> \<le> real i * s / 2 ^ 53"
        using A0 by simp
      have ylo: "4 / 2 ^ 50 \<le> round_double (real i * s)"
        using y slo As unfolding pow_eval by linarith
      then have "4 / 2 ^ 50 \<le> \<bar>round_double (real i * s)\<bar>" by linarith
      then have "2 powi (- 1022) \<le> \<bar>round_double (real i * s)\<bar>"
        using p by (rule order_trans [rotated])
      then have "\<bar>round_double (round_double (real i * s)) - round_double (real i * s)\<bar>
                  \<le> \<bar>round_double (real i * s)\<bar> / 2 ^ 53"
        by (rule round_double_rel)
      then have t: "\<bar>round_double (round_double (real i * s)) - round_double (real i * s)\<bar>
                  \<le> round_double (real i * s) / 2 ^ 53"
        using ylo by simp
      show ?thesis using y t A0 A8 unfolding pow_eval by linarith
    qed
    then show "\<bar>round_double (round_double (real i * s)) - real i * s\<bar> \<le> 3 * (real i * s) / 2 ^ 53"
      and "\<bar>round_double (real i * s)\<bar> \<le> 9" by simp_all
  qed
qed


lemma theta_linspace:
  assumes "1 \<le> nt" and "nt \<le> 2 ^ 50"
  shows "np_linspace 0 (2 * np_pi) (nt + 1) =
           Inr (map (\<lambda>i. Fin (round_double (round_double
                               (real i * round_double (2 * np_pi / real_of_int nt)))))
                  [0..<nat nt] @ [Fin (2 * np_pi)])"
proof -
  define s where "s = round_double (2 * np_pi / real_of_int nt)"
  have n: "nat (nt + 1) = Suc (nat nt)" "0 < nat nt" "real (nat nt) = real_of_int nt"
    using assms(1) by simp_all
  have T: "\<bar>2 * np_pi\<bar> \<le> 7 * 2 ^ 1021" by (simp add: np_pi_def)
  have delta: "d_sub (Fin (2 * np_pi)) (Fin 0) = Fin (2 * np_pi)"
    using d_round_Fin_le [OF T] by (simp add: d_sub_def two_pi_double)
  note st = theta_step [OF assms]
  have "\<bar>2 * np_pi / real_of_int nt\<bar> \<le> 7 * 2 ^ 1021"
    using st(2,3) unfolding pow_eval by linarith
  then have step: "d_round (2 * np_pi / real_of_int nt) = Fin s"
    unfolding s_def by (rule d_round_Fin_le)
  have s0: "Fin s \<noteq> Fin 0"
    using theta_entry(5) [OF assms, of 0] by (simp add: s_def)
  have entry: "d_add (d_mul (Fin (real i)) (Fin s)) (Fin 0)
                 = Fin (round_double (round_double (real i * s)))" if "i < nat nt" for i
  proof -
    have i: "i \<le> nat nt" using that by simp
    note te = theta_entry [OF assms i, folded s_def]
    have "\<bar>real i * s\<bar> \<le> 7 * 2 ^ 1021" using te(2,3) unfolding pow_eval by linarith
    then have 1: "d_round (real i * s) = Fin (round_double (real i * s))"
      by (rule d_round_Fin_le)
    have "\<bar>round_double (real i * s)\<bar> \<le> 7 * 2 ^ 1021"
      using te(4) unfolding pow_eval by linarith
    then have 2: "d_round (round_double (real i * s))
                    = Fin (round_double (round_double (real i * s)))"
      by (rule d_round_Fin_le)
    show ?thesis by (simp add: 1 2)
  qed
  have "np_linspace 0 (2 * np_pi) (nt + 1) =
          Inr (map (\<lambda>i. d_add (d_mul (Fin (real i)) (Fin s)) (Fin 0)) [0..<nat nt]
               @ [Fin (2 * np_pi)])"
    using assms(1) s0
    by (simp add: np_linspace_struct [of "nt + 1"] n delta step Let_def del: upt_Suc)
  also have "map (\<lambda>i. d_add (d_mul (Fin (real i)) (Fin s)) (Fin 0)) [0..<nat nt]
               = map (\<lambda>i. Fin (round_double (round_double (real i * s)))) [0..<nat nt]"
    using entry by simp
  finally show ?thesis unfolding s_def .
qed

lemma theta_props:
  assumes "1 \<le> nt" and "nt \<le> 2 ^ 50"
  defines "th \<equiv> \<lambda>i. round_double (round_double
                         (real i * round_double (2 * np_pi / real_of_int nt)))"
  shows "th 0 = 0"
    and "i < nat nt \<Longrightarrow> th i < 2 * np_pi"
    and "Suc i < nat nt \<Longrightarrow> th i < th (Suc i)"
    and "Suc i < nat nt \<Longrightarrow> \<bar>th (Suc i) - th i - 2 * np_pi / real_of_int nt\<bar> \<le> 1 / 2 ^ 47"
proof -
  define s where "s = round_double (2 * np_pi / real_of_int nt)"
  define w where "w = 2 * np_pi / real_of_int nt"
  have th: "th j = round_double (round_double (real j * s))" for j
    by (simp add: th_def s_def)
  show "th 0 = 0" by (simp add: th)
  note st = theta_step [OF assms(1,2), folded w_def s_def]
  have nt: "0 < real_of_int nt" using assms(1) by simp
  have ntw: "real_of_int nt * w = 2 * np_pi" using nt by (simp add: w_def)
  have T: "6 \<le> 2 * np_pi" "2 * np_pi \<le> 7" by (simp_all add: np_pi_def)
  have n50: "real_of_int nt \<le> 2 ^ 50"
    using assms(2) by (simp add: of_int_le_numeral_power_cancel_iff [symmetric]
        del: of_int_le_numeral_power_cancel_iff)
  define A where "A = real i * s"
  have s0: "0 < s" by (rule theta_entry(5) [OF assms(1,2), of 0, folded s_def]) simp
  have A0: "0 \<le> A" using s0 by (simp add: A_def)
  have Suc_eq: "real (Suc i) * s = A + s" by (simp add: A_def algebra_simps)
  have e0: "\<bar>th i - A\<bar> \<le> 3 * A / 2 ^ 53" if "i \<le> nat nt"
    unfolding th A_def
    by (rule theta_entry(1) [OF assms(1,2) that, folded s_def])
  have e1: "\<bar>th (Suc i) - (A + s)\<bar> \<le> 3 * (A + s) / 2 ^ 53" if "Suc i \<le> nat nt"
    unfolding th Suc_eq [symmetric]
    by (rule theta_entry(1) [OF assms(1,2) that, folded s_def])
  have ns: "real_of_int nt * s \<le> 2 * np_pi + 2 * np_pi / 2 ^ 53"
    by (rule theta_entry(6) [OF assms(1,2), of 0, folded s_def]) simp
  have sw: "w - w / 2 ^ 53 \<le> s" "s \<le> w + w / 2 ^ 53"
    using st(1) by linarith+
  have w50: "2 * np_pi \<le> 2 ^ 50 * w"
  proof -
    have "real_of_int nt * w \<le> 2 ^ 50 * w"
      using n50 st(2) by (intro mult_right_mono) (simp_all add: w_def)
    then show ?thesis using ntw by simp
  qed
  show "th i < 2 * np_pi" if "i < nat nt"
  proof -
    have "int i + 1 \<le> nt" using that by linarith
    then have "real_of_int (int i + 1) \<le> real_of_int nt" by (simp only: of_int_le_iff)
    then have "real i + 1 \<le> real_of_int nt" by simp
    then have "(real i + 1) * s \<le> real_of_int nt * s"
      using s0 by (intro mult_right_mono) simp_all
    then have "A + s \<le> real_of_int nt * s" by (simp add: A_def algebra_simps)
    then have 1: "A + s \<le> 2 * np_pi + 2 * np_pi / 2 ^ 53" using ns by linarith
    have 2: "\<bar>th i - A\<bar> \<le> 3 * A / 2 ^ 53" using that by (intro e0) simp
    show ?thesis using 1 2 sw w50 T A0 unfolding pow_eval by argo
  qed
  have i50: "A \<le> 2 ^ 50 * s" if "Suc i < nat nt"
  proof -
    have "int i \<le> nt" using that by linarith
    then have "real_of_int (int i) \<le> real_of_int nt" by (simp only: of_int_le_iff)
    then have "real i \<le> 2 ^ 50" using n50 by simp
    then show ?thesis unfolding A_def using s0 by (intro mult_right_mono) simp_all
  qed
  show "th i < th (Suc i)" if "Suc i < nat nt"
  proof -
    have 1: "\<bar>th i - A\<bar> \<le> 3 * A / 2 ^ 53" using that by (intro e0) simp
    have 2: "\<bar>th (Suc i) - (A + s)\<bar> \<le> 3 * (A + s) / 2 ^ 53" using that by (intro e1) simp
    show ?thesis using 1 2 i50 [OF that] s0 A0 unfolding pow_eval by argo
  qed
  show "\<bar>th (Suc i) - th i - 2 * np_pi / real_of_int nt\<bar> \<le> 1 / 2 ^ 47" if "Suc i < nat nt"
  proof -
    have 1: "\<bar>th i - A\<bar> \<le> 3 * A / 2 ^ 53" using that by (intro e0) simp
    have 2: "\<bar>th (Suc i) - (A + s)\<bar> \<le> 3 * (A + s) / 2 ^ 53" using that by (intro e1) simp
    have "int i + 1 \<le> nt" using that by linarith
    then have "real_of_int (int i + 1) \<le> real_of_int nt" by (simp only: of_int_le_iff)
    then have "real i + 1 \<le> real_of_int nt" by simp
    then have "(real i + 1) * s \<le> real_of_int nt * s"
      using s0 by (intro mult_right_mono) simp_all
    then have "A + s \<le> real_of_int nt * s" by (simp add: A_def algebra_simps)
    then have 3: "A + s \<le> 2 * np_pi + 2 * np_pi / 2 ^ 53" using ns by linarith
    have 4: "w \<le> 7" "0 \<le> w" using st(2,3) unfolding pow_eval by argo+
    have "\<bar>th (Suc i) - th i - w\<bar> \<le> 1 / 2 ^ 47"
      using 1 2 3 4 sw T A0 s0 unfolding pow_eval by argo
    then show ?thesis by (simp add: w_def)
  qed
qed

text \<open>
  The grid of the example configuration, entry by entry: the step \<open>2 * np.pi / 6\<close>
  rounds to \<open>4716158501352293 / 2^52\<close>, its products with 1, 2 and 4 are exact, and its
  products with 3 and 5 are rounded, the first up (a tie, which goes to the even
  neighbour) and the second down.
\<close>

lemma upt6: "[0..<6] = [0, 1, 2, 3, 4, 5]"
  by (simp add: upt_rec)

lemma step6: "round_double (2 * np_pi / 6) = 4716158501352293 / 2 ^ 52"
proof -
  have "round_double (2 * np_pi / 6) = of_int 4716158501352293 * 2 powi (0 - 52)"
    by (rule rd_eval) (simp_all add: np_pi_def round_even_def Let_def power_int_minus)
  then show ?thesis by (simp add: power_int_minus divide_simps)
qed

lemma theta6_products:
  "round_double (1 * (4716158501352293 / 2 ^ 52)) = 4716158501352293 / 2 ^ 52"
  "round_double (2 * (4716158501352293 / 2 ^ 52)) = 9432317002704586 / 2 ^ 52"
  "round_double (3 * (4716158501352293 / 2 ^ 52)) = 14148475504056880 / 2 ^ 52"
  "round_double (4 * (4716158501352293 / 2 ^ 52)) = 18864634005409172 / 2 ^ 52"
  "round_double (5 * (4716158501352293 / 2 ^ 52)) = 23580792506761464 / 2 ^ 52"
proof -
  have "round_double (1 * (4716158501352293 / 2 ^ 52)) = of_int 4716158501352293 * 2 powi (0 - 52)"
    by (rule rd_eval) (simp_all add: round_even_def Let_def power_int_minus)
  then show "round_double (1 * (4716158501352293 / 2 ^ 52)) = 4716158501352293 / 2 ^ 52"
    by (simp add: power_int_minus divide_simps)
  have "round_double (2 * (4716158501352293 / 2 ^ 52)) = of_int 4716158501352293 * 2 powi (1 - 52)"
    by (rule rd_eval) (simp_all add: round_even_def Let_def power_int_minus)
  then show "round_double (2 * (4716158501352293 / 2 ^ 52)) = 9432317002704586 / 2 ^ 52"
    by (simp add: power_int_minus divide_simps)
  have "round_double (3 * (4716158501352293 / 2 ^ 52)) = of_int 7074237752028440 * 2 powi (1 - 52)"
    by (rule rd_eval) (simp_all add: round_even_def Let_def power_int_minus)
  then show "round_double (3 * (4716158501352293 / 2 ^ 52)) = 14148475504056880 / 2 ^ 52"
    by (simp add: power_int_minus divide_simps)
  have "round_double (4 * (4716158501352293 / 2 ^ 52)) = of_int 4716158501352293 * 2 powi (2 - 52)"
    by (rule rd_eval) (simp_all add: round_even_def Let_def power_int_minus)
  then show "round_double (4 * (4716158501352293 / 2 ^ 52)) = 18864634005409172 / 2 ^ 52"
    by (simp add: power_int_minus divide_simps)
  have "round_double (5 * (4716158501352293 / 2 ^ 52)) = of_int 5895198126690366 * 2 powi (2 - 52)"
    by (rule rd_eval) (simp_all add: round_even_def Let_def power_int_minus)
  then show "round_double (5 * (4716158501352293 / 2 ^ 52)) = 23580792506761464 / 2 ^ 52"
    by (simp add: power_int_minus divide_simps)
qed

lemma theta6_doubles:
  "round_double (4716158501352293 / 2 ^ 52) = 4716158501352293 / 2 ^ 52"
  "round_double (9432317002704586 / 2 ^ 52) = 9432317002704586 / 2 ^ 52"
  "round_double (14148475504056880 / 2 ^ 52) = 14148475504056880 / 2 ^ 52"
  "round_double (18864634005409172 / 2 ^ 52) = 18864634005409172 / 2 ^ 52"
  "round_double (23580792506761464 / 2 ^ 52) = 23580792506761464 / 2 ^ 52"
proof -
  have "round_double (4716158501352293 / 2 ^ 52) = of_int 4716158501352293 * 2 powi (0 - 52)"
    by (rule rd_eval) (simp_all add: round_even_def Let_def power_int_minus)
  then show "round_double (4716158501352293 / 2 ^ 52) = 4716158501352293 / 2 ^ 52"
    by (simp add: power_int_minus divide_simps)
  have "round_double (9432317002704586 / 2 ^ 52) = of_int 4716158501352293 * 2 powi (1 - 52)"
    by (rule rd_eval) (simp_all add: round_even_def Let_def power_int_minus)
  then show "round_double (9432317002704586 / 2 ^ 52) = 9432317002704586 / 2 ^ 52"
    by (simp add: power_int_minus divide_simps)
  have "round_double (14148475504056880 / 2 ^ 52) = of_int 7074237752028440 * 2 powi (1 - 52)"
    by (rule rd_eval) (simp_all add: round_even_def Let_def power_int_minus)
  then show "round_double (14148475504056880 / 2 ^ 52) = 14148475504056880 / 2 ^ 52"
    by (simp add: power_int_minus divide_simps)
  have "round_double (18864634005409172 / 2 ^ 52) = of_int 4716158501352293 * 2 powi (2 - 52)"
    by (rule rd_eval) (simp_all add: round_even_def Let_def power_int_minus)
  then show "round_double (18864634005409172 / 2 ^ 52) = 18864634005409172 / 2 ^ 52"
    by (simp add: power_int_minus divide_simps)
  have "round_double (23580792506761464 / 2 ^ 52) = of_int 5895198126690366 * 2 powi (2 - 52)"
    by (rule rd_eval) (simp_all add: round_even_def Let_def power_int_minus)
  then show "round_double (23580792506761464 / 2 ^ 52) = 23580792506761464 / 2 ^ 52"
    by (simp add: power_int_minus divide_simps)
qed

lemma theta6:
  "np_linspace 0 (2 * np_pi) 7 =
     Inr (map Fin [0, 4716158501352293 / 2 ^ 52, 9432317002704586 / 2 ^ 52,
                   14148475504056880 / 2 ^ 52, 18864634005409172 / 2 ^ 52,
                   23580792506761464 / 2 ^ 52] @ [Fin (2 * np_pi)])"
proof -
  have "np_linspace 0 (2 * np_pi) (6 + 1) =
           Inr (map (\<lambda>i. Fin (round_double (round_double
                               (real i * round_double (2 * np_pi / real_of_int 6)))))
                  [0..<nat 6] @ [Fin (2 * np_pi)])"
    by (rule theta_linspace) simp_all
  moreover have "(6::int) + 1 = 7" by simp
  ultimately have "np_linspace 0 (2 * np_pi) 7 =
           Inr (map (\<lambda>i. Fin (round_double (round_double
                               (real i * round_double (2 * np_pi / real_of_int 6)))))
                  [0..<nat 6] @ [Fin (2 * np_pi)])"
    by (simp only:)
  then show ?thesis
    unfolding nat_numeral upt6 list.map of_int_numeral step6 of_nat_numeral of_nat_0 of_nat_1
      theta6_products theta6_doubles mult_zero_left round_double_0 .
qed


lemma double_89: "round_double 89 = 89"
proof -
  have "round_double 89 = of_int 6262818231812096 * 2 powi (6 - 52)"
    by (rule rd_eval) (simp_all add: round_even_def Let_def power_int_minus)
  then show ?thesis by (simp add: power_int_minus divide_simps)
qed

lemma radial_89: "np_linspace 0 89 2 = Inr [Fin 0, Fin 89]"
proof -
  have 1: "d_round 89 = Fin 89"
    using d_round_Fin_le [of 89] by (simp add: double_89)
  have 2: "d_round 0 = Fin 0"
    using d_round_Fin_le [of 0] by simp
  show ?thesis
    by (simp add: np_linspace_struct Let_def d_sub_def 1 2)
qed

lemma ex_radial_options:
  "\<exists>ad loc.
     mergedicts ex_radial plot_radial_actiondefs = Inr ad
     \<and> read_opts ex_sv ad plot_radial_reads Map.empty = Inr loc
     \<and> ad ''LR'' = Some (PyInt 89) \<and> ad ''NR'' = Some (PyInt 2) \<and> ad ''NTheta'' = Some (PyInt 6)
     \<and> local_var loc ''LR'' = PyInt 89 \<and> local_var loc ''NR'' = PyInt 2
     \<and> local_var loc ''NTheta'' = PyInt 6"
  by (simp add: mergedicts_def ex_radial_def plot_radial_actiondefs_def opt_def
      plot_radial_reads_def getitem_def map_add_def py_eval_def ex_sv_def local_var_def)

text \<open>
  Claim C3, as amended. Take a \<^verbatim>\<open>plot_radial\<close> configuration whose options can all
  be read, with a radial extent that is a number in the range of a double, with
  \<^verbatim>\<open>NR\<close> at least 1 and \<^verbatim>\<open>NTheta\<close> between 1 and \<open>2^50\<close>. Then \<^verbatim>\<open>execute\<close> is
  the loop over the iterations in which every frame is drawn on one and the same polar
  grid, and the angular part of that grid
  \<^item> has exactly \<^verbatim>\<open>NTheta\<close> entries, all finite;
  \<^item> starts with 0;
  \<^item> stays strictly below \<^verbatim>\<open>2 * np.pi\<close>;
  \<^item> is strictly increasing;
  \<^item> has as entry \<open>i\<close> the index \<open>i\<close> times the rounded step, rounded by the product and
    by the addition of the start;
  \<^item> has consecutive entries whose difference is \<^verbatim>\<open>2 * np.pi / NTheta\<close> up to
    \<open>2^-47\<close>.
\<close>

theorem polar_theta_grid:
  assumes "read_opts sv ad plot_radial_reads Map.empty = Inr loc"
    and "ad ''LR'' = Some lrv" and "as_double lrv = Inr lr"
    and "ad ''NR'' = Some (PyInt nr)" and "1 \<le> nr"
    and "ad ''NTheta'' = Some (PyInt nt)" and "1 \<le> nt" and "nt \<le> 2 ^ 50"
    and "p_iters self = PyList its"
  shows "\<exists>r th.
           polar_grid lrv (PyInt nr) (PyInt nt) = Inr (r, map Fin th)
           \<and> plot_radial_execute sv self ad =
               for_enum (plot_radial_frame sv self loc r (map Fin th) (p_iplane self)) 0 its
           \<and> length r = nat nr
           \<and> length th = nat nt
           \<and> th ! 0 = 0
           \<and> (\<forall>i < length th. th ! i < 2 * np_pi)
           \<and> (\<forall>i. Suc i < length th \<longrightarrow> th ! i < th ! Suc i)
           \<and> (\<forall>i < length th.
                 th ! i = round_double (round_double
                            (real i * round_double (2 * np_pi / real_of_int nt))))
           \<and> (\<forall>i. Suc i < length th \<longrightarrow>
                 \<bar>th ! Suc i - th ! i - 2 * np_pi / real_of_int nt\<bar> \<le> 1 / 2 ^ 47)"
proof -
  define f where "f = (\<lambda>i. round_double (round_double
                            (real i * round_double (2 * np_pi / real_of_int nt))))"
  define th where "th = map f [0..<nat nt]"
  have "ad ''LR'' = Some (local_var loc ''LR'')"
    by (rule local_var_plain [OF assms(1)]) (simp_all add: plot_radial_reads_def)
  then have LR: "local_var loc ''LR'' = lrv" using assms(2) by simp
  have "ad ''NR'' = Some (local_var loc ''NR'')"
    by (rule local_var_plain [OF assms(1)]) (simp_all add: plot_radial_reads_def)
  then have NR: "local_var loc ''NR'' = PyInt nr" using assms(4) by simp
  have "ad ''NTheta'' = Some (local_var loc ''NTheta'')"
    by (rule local_var_plain [OF assms(1)]) (simp_all add: plot_radial_reads_def)
  then have NT: "local_var loc ''NTheta'' = PyInt nt" using assms(6) by simp
  have notseq: "\<not> is_sequence lrv" using assms(3) by (cases lrv) simp_all
  obtain r where r: "np_linspace 0 lr nr = Inr r" "length r = nat nr"
    using np_linspace_length [of nr 0 lr] assms(5) by auto
  have zero: "as_double (PyInt 0) = Inr 0" by simp
  have rr: "np_linspace_py (PyInt 0) lrv (PyInt nr) = Inr r"
    using assms(3,5) r(1) by (simp add: np_linspace_py_def zero del: as_double.simps)
  have tt: "np_linspace_py (PyInt 0) (PyFloat (2 * np_pi)) (PyInt (nt + 1))
              = Inr (map Fin th @ [Fin (2 * np_pi)])"
    using assms(7) theta_linspace [OF assms(7,8)]
    by (simp add: np_linspace_py_def zero th_def f_def o_def del: as_double.simps(1))
  have grid: "polar_grid lrv (PyInt nr) (PyInt nt) = Inr (r, map Fin th)"
    by (simp add: polar_grid_def rr tt)
  have run: "plot_radial_execute sv self ad =
               for_enum (plot_radial_frame sv self loc r (map Fin th) (p_iplane self)) 0 its"
    using notseq by (simp add: plot_radial_execute_def assms(1,9) LR NR NT grid)
  have len: "length th = nat nt" by (simp add: th_def)
  have nth: "th ! i = f i" if "i < nat nt" for i
    using that by (simp add: th_def)
  note tp = theta_props [OF assms(7,8)]
  have "f 0 = 0" by (simp add: f_def)
  then have 0: "th ! 0 = 0" using assms(7) nth [of 0] by simp
  have 1: "\<forall>i < length th. th ! i < 2 * np_pi"
    using tp(2) nth len by (simp add: f_def)
  have 2: "\<forall>i. Suc i < length th \<longrightarrow> th ! i < th ! Suc i"
    using tp(3) nth len by (simp add: f_def)
  have 3: "\<forall>i < length th. th ! i = f i"
    using nth len by simp
  have 4: "\<forall>i. Suc i < length th \<longrightarrow>
             \<bar>th ! Suc i - th ! i - 2 * np_pi / real_of_int nt\<bar> \<le> 1 / 2 ^ 47"
    using tp(4) nth len by (simp add: f_def)
  show ?thesis
    using grid run r(2) len 0 1 2 3 4 unfolding f_def by blast
qed

text \<open>
  The theorem on the example configuration, with six angular samples, on the example
  plane of two time steps.
\<close>

theorem polar_theta_grid_witness:
  "\<exists>ad loc r th.
     mergedicts ex_radial plot_radial_actiondefs = Inr ad
     \<and> read_opts ex_sv ad plot_radial_reads Map.empty = Inr loc
     \<and> ad ''LR'' = Some (PyInt 89) \<and> as_double (PyInt 89) = Inr 89
     \<and> ad ''NR'' = Some (PyInt 2) \<and> ad ''NTheta'' = Some (PyInt 6)
     \<and> p_iters ex_self = PyList [PyInt 0, PyInt 1]
     \<and> polar_grid (PyInt 89) (PyInt 2) (PyInt 6) = Inr (r, map Fin th)
     \<and> plot_radial_execute ex_sv ex_self ad =
         for_enum (plot_radial_frame ex_sv ex_self loc r (map Fin th) (p_iplane ex_self)) 0
           [PyInt 0, PyInt 1]
     \<and> length r = 2 \<and> length th = 6 \<and> th ! 0 = 0 \<and> th ! 5 < 2 * np_pi \<and> th ! 4 < th ! 5
     \<and> \<bar>th ! 5 - th ! 4 - 2 * np_pi / 6\<bar> \<le> 1 / 2 ^ 47"
proof -
  obtain ad loc where c: "mergedicts ex_radial plot_radial_actiondefs = Inr ad"
    "read_opts ex_sv ad plot_radial_reads Map.empty = Inr loc"
    "ad ''LR'' = Some (PyInt 89)" "ad ''NR'' = Some (PyInt 2)" "ad ''NTheta'' = Some (PyInt 6)"
    using ex_radial_options by blast
  have d: "as_double (PyInt 89) = Inr 89" by (simp add: double_89)
  have it: "p_iters ex_self = PyList [PyInt 0, PyInt 1]" by (simp add: ex_self_def)
  have b: "(1::int) \<le> 2" "(1::int) \<le> 6" "(6::int) \<le> 2 ^ 50" by simp_all
  from polar_theta_grid [OF c(2,3) d c(4) b(1) c(5) b(2,3) it]
  obtain r th where g: "polar_grid (PyInt 89) (PyInt 2) (PyInt 6) = Inr (r, map Fin th)"
    "plot_radial_execute ex_sv ex_self ad =
       for_enum (plot_radial_frame ex_sv ex_self loc r (map Fin th) (p_iplane ex_self)) 0
         [PyInt 0, PyInt 1]"
    "length r = nat 2" "length th = nat 6" "th ! 0 = 0"
    "\<forall>i < length th. th ! i < 2 * np_pi"
    "\<forall>i. Suc i < length th \<longrightarrow> th ! i < th ! Suc i"
    "\<forall>i. Suc i < length th \<longrightarrow> \<bar>th ! Suc i - th ! i - 2 * np_pi / real_of_int 6\<bar> \<le> 1 / 2 ^ 47"
    by blast
  have 1: "th ! 5 < 2 * np_pi" using g(4,6) by simp
  have "Suc 4 < length th" using g(4) by simp
  then have "th ! 4 < th ! Suc 4" "\<bar>th ! Suc 4 - th ! 4 - 2 * np_pi / real_of_int 6\<bar> \<le> 1 / 2 ^ 47"
    using g(7,8) by blast+
  moreover have "Suc 4 = 5" by simp
  ultimately have 2: "th ! 4 < th ! 5" "\<bar>th ! 5 - th ! 4 - 2 * np_pi / 6\<bar> \<le> 1 / 2 ^ 47"
    by (simp_all only: of_int_numeral)
  have 3: "length r = 2" "length th = 6" using g(3,4) by simp_all
  show ?thesis using c d it g(1,2,5) 1 2 3 by blast
qed

text \<open>
  Claim C3 as stated fails in its last part: the differences of consecutive entries are
  not one and the same number. With six angular samples the entries are \<open>0, s, 2s\<close>, then
  \<open>3s\<close> rounded up, \<open>4s\<close>, and \<open>5s\<close> rounded down, where \<open>s\<close> is the rounded step; the
  differences are \<open>s\<close>, \<open>s\<close>, \<open>s + 2^-52\<close>, \<open>s - 2^-52\<close> and \<open>s - 2^-52\<close>, so the third
  one is neither the exact quotient \<open>2 * np.pi / 6\<close> nor its rounded value.
\<close>

theorem polar_theta_spacing_counterexample:
  "\<exists>ad loc th.
     mergedicts ex_radial plot_radial_actiondefs = Inr ad
     \<and> read_opts ex_sv ad plot_radial_reads Map.empty = Inr loc
     \<and> polar_grid (PyInt 89) (PyInt 2) (PyInt 6) = Inr ([Fin 0, Fin 89], map Fin th)
     \<and> plot_radial_execute ex_sv ex_self ad =
         for_enum (plot_radial_frame ex_sv ex_self loc [Fin 0, Fin 89] (map Fin th) (PyInt 0)) 0
           [PyInt 0, PyInt 1]
     \<and> th = [0, 4716158501352293 / 2 ^ 52, 9432317002704586 / 2 ^ 52,
             14148475504056880 / 2 ^ 52, 18864634005409172 / 2 ^ 52,
             23580792506761464 / 2 ^ 52]
     \<and> th ! 2 - th ! 1 = 4716158501352293 / 2 ^ 52
     \<and> th ! 3 - th ! 2 = 4716158501352294 / 2 ^ 52
     \<and> th ! 4 - th ! 3 = 4716158501352292 / 2 ^ 52
     \<and> th ! 3 - th ! 2 \<noteq> th ! 2 - th ! 1
     \<and> th ! 3 - th ! 2 \<noteq> 2 * np_pi / 6
     \<and> th ! 3 - th ! 2 \<noteq> round_double (2 * np_pi / 6)"
proof -
  define th :: "real list" where
    "th = [0, 4716158501352293 / 2 ^ 52, 9432317002704586 / 2 ^ 52,
           14148475504056880 / 2 ^ 52, 18864634005409172 / 2 ^ 52,
           23580792506761464 / 2 ^ 52]"
  obtain ad loc where c: "mergedicts ex_radial plot_radial_actiondefs = Inr ad"
    "read_opts ex_sv ad plot_radial_reads Map.empty = Inr loc"
    "local_var loc ''LR'' = PyInt 89" "local_var loc ''NR'' = PyInt 2"
    "local_var loc ''NTheta'' = PyInt 6"
    using ex_radial_options by blast
  have d: "as_double (PyInt 89) = Inr 89" "as_double (PyInt 0) = Inr 0"
    by (simp_all add: double_89)
  have r: "np_linspace_py (PyInt 0) (PyInt 89) (PyInt 2) = Inr [Fin 0, Fin 89]"
    by (simp add: np_linspace_py_def d radial_89 del: as_double.simps)
  have t: "np_linspace_py (PyInt 0) (PyFloat (2 * np_pi)) (PyInt 7)
             = Inr (map Fin th @ [Fin (2 * np_pi)])"
    by (simp add: np_linspace_py_def d theta6 th_def del: as_double.simps(1))
  have g: "polar_grid (PyInt 89) (PyInt 2) (PyInt 6) = Inr ([Fin 0, Fin 89], map Fin th)"
    by (simp add: polar_grid_def r t)
  have it: "p_iters ex_self = PyList [PyInt 0, PyInt 1]" "p_iplane ex_self = PyInt 0"
    by (simp_all add: ex_self_def)
  have run: "plot_radial_execute ex_sv ex_self ad =
         for_enum (plot_radial_frame ex_sv ex_self loc [Fin 0, Fin 89] (map Fin th) (PyInt 0)) 0
           [PyInt 0, PyInt 1]"
    by (simp add: plot_radial_execute_def c g it)
  have diffs: "th ! 2 - th ! 1 = 4716158501352293 / 2 ^ 52"
    "th ! 3 - th ! 2 = 4716158501352294 / 2 ^ 52"
    "th ! 4 - th ! 3 = 4716158501352292 / 2 ^ 52"
    by (simp_all add: th_def)
  have ne: "th ! 3 - th ! 2 \<noteq> th ! 2 - th ! 1"
    "th ! 3 - th ! 2 \<noteq> 2 * np_pi / 6"
    "th ! 3 - th ! 2 \<noteq> round_double (2 * np_pi / 6)"
    unfolding diffs step6 by (simp_all add: np_pi_def)
  show ?thesis using c(1,2) g run diffs ne th_def by blast
qed

section \<open>Properties of the dispatcher\<close>


lemma present_Nil [simp]: "present [] plane = []"
  by (simp add: present_def List.map_filter_simps)








section \<open>The resolved iteration list\<close>




section \<open>The files saved by the plot action\<close>

lemma savefig_names_append: "savefig_names (xs @ ys) = savefig_names xs @ savefig_names ys"
  by (induction xs rule: savefig_names.induct) simp_all

lemma save_frame_saves:
  assumes "save_frame sv (PyStr tpl) kw = (ev, Inr u)" and "tpl \<noteq> []"
  obtains name where "str_format sv (PyStr tpl) kw = Inr name"
    and "ev = [MakeDirs (fst (os_path_split name) @ ''/''), SaveFig name]"
proof (cases "str_format sv (PyStr tpl) kw")
  case (Inl e)
  then show ?thesis using assms by (simp add: save_frame_def)
next
  case (Inr name)
  then show ?thesis using assms that [of name]
    by (simp add: save_frame_def make_parent_dir_def r_emit_def)
qed

lemma ticks_no_savefig:
  "savefig_names (fst (r_bind (r_lift r) (\<lambda>t. r_emit (CbarTicks t)))) = []"
  by (cases r) (simp_all add: r_emit_def)

lemma plot_colorbar_no_savefig:
  assumes "plot_colorbar cbar_inc cbar_label cbar_nticks levels = (ev, r)"
  shows "savefig_names ev = []"
proof -
  have "savefig_names (fst (ev, r)) = []"
    unfolding assms [symmetric]
    by (cases levels) (simp_all add: plot_colorbar_def ticks_no_savefig r_ok_def r_raise_def)
  then show ?thesis by simp
qed

lemma plot_frame_saves:
  assumes run: "plot_frame sv self loc iplane j x = (ev, Inr u)"
    and sf: "local_var loc ''savefile'' = PyStr tpl" and ne: "tpl \<noteq> []"
  shows "\<exists>t name. frame_time self j = Inr t
           \<and> str_format sv (PyStr tpl) [(''time'', t), (''iplane'', iplane), (''iter'', x)] = Inr name
           \<and> savefig_names ev = [name]"
proof -
  from run obtain t where t: "frame_time self j = Inr t"
    and r1: "r_bind (r_lift (sv_contourf sv self loc x)) (\<lambda>levels.
             r_bind (plot_colorbar (local_var loc ''cbar'') (local_var loc ''cbar_label'')
                       (local_var loc ''cbar_nticks'') levels) (\<lambda>u.
             r_bind (r_lift (sv_decorate sv self loc t x)) (\<lambda>u.
             save_frame sv (local_var loc ''savefile'')
               [(''time'', t), (''iplane'', iplane), (''iter'', x)]))) = (ev, Inr u)"
    unfolding plot_frame_def by (rule r_lift_InrD)
  from r1 obtain levels where
    r2: "r_bind (plot_colorbar (local_var loc ''cbar'') (local_var loc ''cbar_label'')
                       (local_var loc ''cbar_nticks'') levels) (\<lambda>u.
             r_bind (r_lift (sv_decorate sv self loc t x)) (\<lambda>u.
             save_frame sv (local_var loc ''savefile'')
               [(''time'', t), (''iplane'', iplane), (''iter'', x)])) = (ev, Inr u)"
    by (rule r_lift_InrD)
  from r2 obtain e1 u1 e2 where
    cb: "plot_colorbar (local_var loc ''cbar'') (local_var loc ''cbar_label'')
           (local_var loc ''cbar_nticks'') levels = (e1, Inr u1)"
    and r3: "r_bind (r_lift (sv_decorate sv self loc t x)) (\<lambda>u.
             save_frame sv (local_var loc ''savefile'')
               [(''time'', t), (''iplane'', iplane), (''iter'', x)]) = (e2, Inr u)"
    and ev: "ev = e1 @ e2"
    by (rule r_bind_InrD)
  from r3 obtain u2 where
    r4: "save_frame sv (local_var loc ''savefile'')
           [(''time'', t), (''iplane'', iplane), (''iter'', x)] = (e2, Inr u)"
    by (rule r_lift_InrD)
  from r4 obtain name where
    name: "str_format sv (PyStr tpl) [(''time'', t), (''iplane'', iplane), (''iter'', x)] = Inr name"
    and e2: "e2 = [MakeDirs (fst (os_path_split name) @ ''/''), SaveFig name]"
    unfolding sf using ne by (rule save_frame_saves)
  have "savefig_names e1 = []"
    by (rule plot_colorbar_no_savefig [OF cb])
  then have "savefig_names ev = [name]"
    using ev e2 by (simp add: savefig_names_append)
  then show ?thesis using t name by blast
qed

lemma for_enum_savefigs:
  assumes "for_enum body k xs = (evs, Inr u)"
    and "\<And>j x ev v. body j x = (ev, Inr v) \<Longrightarrow> \<exists>name. savefig_names ev = [name] \<and> P j x name"
  shows "length (savefig_names evs) = length xs
         \<and> (\<forall>i < length xs. P (k + i) (xs ! i) (savefig_names evs ! i))"
  using assms(1)
proof (induction xs arbitrary: k evs)
  case Nil
  then show ?case by (simp add: r_ok_def)
next
  case (Cons x xs)
  from Cons.prems obtain e1 v e2 where
    b: "body k x = (e1, Inr v)" and rest: "for_enum body (Suc k) xs = (e2, Inr u)"
    and evs: "evs = e1 @ e2"
    unfolding for_enum.simps by (rule r_bind_InrD)
  obtain name where name: "savefig_names e1 = [name]" "P k x name"
    using assms(2) [OF b] by blast
  have ih: "length (savefig_names e2) = length xs"
    "\<forall>i < length xs. P (Suc k + i) (xs ! i) (savefig_names e2 ! i)"
    using Cons.IH [OF rest] by simp_all
  have sn: "savefig_names evs = name # savefig_names e2"
    using evs name(1) by (simp add: savefig_names_append)
  have "P (k + i) ((x # xs) ! i) (savefig_names evs ! i)" if "i < length (x # xs)" for i
  proof (cases i)
    case 0
    then show ?thesis using name(2) sn by simp
  next
    case (Suc i')
    then show ?thesis using that ih(2) sn by simp
  qed
  then show ?case using sn ih(1) by simp
qed

text \<open>
  Claim C2. In a run of the plot action that no exception ends, with \<open>N\<close> resolved
  iterations and a non-empty \<^verbatim>\<open>savefile\<close> template, \<^verbatim>\<open>plt.savefig\<close> is called exactly
  \<open>N\<close> times, once per iteration and in their order, and the name of call \<open>k\<close> is the
  template formatted with the time of frame \<open>k\<close>, the plane index and iteration \<open>k\<close>.
\<close>

theorem plot_saves_one_file_per_iteration:
  assumes "plot_execute sv self ad = (evs, Inr u)"
    and "p_iters self = PyList its"
    and "ad ''savefile'' = Some (PyStr tpl)" and "tpl \<noteq> []"
  shows "length (savefig_names evs) = length its
         \<and> (\<forall>k < length its. \<exists>t.
                frame_time self k = Inr t
                \<and> str_format sv (PyStr tpl)
                      [(''time'', t), (''iplane'', p_iplane self), (''iter'', its ! k)]
                    = Inr (savefig_names evs ! k))"
proof -
  from assms(1) obtain loc where loc: "read_opts sv ad plot_reads Map.empty = Inr loc"
    and run: "r_bind (r_lift (py_iter (p_iters self))) (\<lambda>its.
              for_enum (plot_frame sv self loc (p_iplane self)) 0 its) = (evs, Inr u)"
    unfolding plot_execute_def by (rule r_lift_InrD)
  have "ad ''savefile'' = Some (local_var loc ''savefile'')"
    by (rule local_var_plain [OF loc]) (simp_all add: plot_reads_def)
  then have sf: "local_var loc ''savefile'' = PyStr tpl"
    using assms(3) by simp
  have loop: "for_enum (plot_frame sv self loc (p_iplane self)) 0 its = (evs, Inr u)"
    using run assms(2) by simp
  have "length (savefig_names evs) = length its
        \<and> (\<forall>i < length its.
              (\<lambda>j x name. \<exists>t. frame_time self j = Inr t
                 \<and> str_format sv (PyStr tpl) [(''time'', t), (''iplane'', p_iplane self), (''iter'', x)]
                     = Inr name) (0 + i) (its ! i) (savefig_names evs ! i))"
  proof (rule for_enum_savefigs [OF loop])
    fix j x ev v
    assume "plot_frame sv self loc (p_iplane self) j x = (ev, Inr v)"
    from plot_frame_saves [OF this sf assms(4)]
    show "\<exists>name. savefig_names ev = [name]
            \<and> (\<exists>t. frame_time self j = Inr t
                  \<and> str_format sv (PyStr tpl)
                       [(''time'', t), (''iplane'', p_iplane self), (''iter'', x)] = Inr name)"
      by blast
  qed
  then show ?thesis by simp
qed

text \<open>
  The theorem on the example plane of two time steps, with the defaults of the schema
  and the template \<^verbatim>\<open>out/f_{time}_{iter}.png\<close>: the run completes and saves
  \<^verbatim>\<open>out/f_10.0_0.png\<close> and \<^verbatim>\<open>out/f_20.0_1.png\<close>.
\<close>

theorem plot_saves_one_file_per_iteration_witness:
  "\<exists>ad evs.
     mergedicts (PyDict [(''savefile'', PyStr ''out/f_{time}_{iter}.png'')]) plot_actiondefs = Inr ad
     \<and> plot_execute ex_sv ex_self ad = (evs, Inr ())
     \<and> savefig_names evs = [''out/f_10.0_0.png'', ''out/f_20.0_1.png'']
     \<and> length (savefig_names evs) = length [PyInt 0, PyInt 1]
     \<and> str_format ex_sv (PyStr ''out/f_{time}_{iter}.png'')
           [(''time'', PyFloat 20), (''iplane'', PyInt 0), (''iter'', PyInt 1)]
         = Inr (savefig_names evs ! 1)"
proof -
  define ad where "ad = map_of (map (\<lambda>d. (od_key d, od_default d)) plot_actiondefs) ++
      map_of [(''savefile'', PyStr ''out/f_{time}_{iter}.png'')]"
  define evs :: "nat event list" where
    "evs = [Colorbar, MakeDirs ''out/'', SaveFig ''out/f_10.0_0.png'',
            Colorbar, MakeDirs ''out/'', SaveFig ''out/f_20.0_1.png'']"
  have m: "mergedicts (PyDict [(''savefile'', PyStr ''out/f_{time}_{iter}.png'')]) plot_actiondefs = Inr ad"
    by (simp add: mergedicts_def plot_actiondefs_def opt_def ad_def)
  have sf: "ad ''savefile'' = Some (PyStr ''out/f_{time}_{iter}.png'')"
    by (simp add: ad_def map_add_def)
  have loc: "\<exists>loc. read_opts ex_sv ad plot_reads Map.empty = Inr loc
      \<and> local_var loc ''savefile'' = PyStr ''out/f_{time}_{iter}.png''
      \<and> local_var loc ''cbar'' = PyBool True
      \<and> local_var loc ''cbar_label'' = PyNone
      \<and> local_var loc ''cbar_nticks'' = PyNone"
    by (simp add: plot_reads_def ad_def plot_actiondefs_def opt_def getitem_def map_add_def
        py_eval_def ex_sv_def local_var_def)
  have fmt: "str_format ex_sv (PyStr ''out/f_{time}_{iter}.png'')
       [(''time'', PyFloat 10), (''iplane'', PyInt 0), (''iter'', PyInt 0)] = Inr ''out/f_10.0_0.png''"
    "str_format ex_sv (PyStr ''out/f_{time}_{iter}.png'')
       [(''time'', PyFloat 20), (''iplane'', PyInt 0), (''iter'', PyInt 1)] = Inr ''out/f_20.0_1.png''"
    by (simp_all add: str_format_def fmt_field_def ex_sv_def ex_str_def is_digit_def)
  have sp: "os_path_split ''out/f_10.0_0.png'' = (''out'', ''f_10.0_0.png'')"
    "os_path_split ''out/f_20.0_1.png'' = (''out'', ''f_20.0_1.png'')"
    by (simp_all add: os_path_split_def)
  have ft: "frame_time ex_self 0 = Inr (PyFloat 10)" "frame_time ex_self (Suc 0) = Inr (PyFloat 20)"
    by (simp_all add: frame_time_def ex_self_def ex_db_def getitem_def)
  obtain loc where l: "read_opts ex_sv ad plot_reads Map.empty = Inr loc"
    "local_var loc ''savefile'' = PyStr ''out/f_{time}_{iter}.png''"
    "local_var loc ''cbar'' = PyBool True"
    "local_var loc ''cbar_label'' = PyNone"
    "local_var loc ''cbar_nticks'' = PyNone"
    using loc by blast
  have cf: "sv_contourf ex_sv s lc i = Inr [0, 6, 12]" "sv_decorate ex_sv s lc t i = Inr ()" for s lc i t
    by (simp_all add: ex_sv_def)
  have it: "p_iters ex_self = PyList [PyInt 0, PyInt 1]" "p_iplane ex_self = PyInt 0"
    by (simp_all add: ex_self_def)
  have run: "plot_execute ex_sv ex_self ad = (evs, Inr ())"
    by (simp add: plot_execute_def l it plot_frame_def ft cf plot_colorbar_def save_frame_def
        fmt sp make_parent_dir_def r_emit_def r_ok_def evs_def)
  have names: "savefig_names evs = [''out/f_10.0_0.png'', ''out/f_20.0_1.png'']"
    by (simp add: evs_def)
  have ne: "''out/f_{time}_{iter}.png'' \<noteq> []" by simp
  from plot_saves_one_file_per_iteration [OF run it(1) sf ne]
  have len: "length (savefig_names evs) = length [PyInt 0, PyInt 1]" by simp
  have last: "str_format ex_sv (PyStr ''out/f_{time}_{iter}.png'')
           [(''time'', PyFloat 20), (''iplane'', PyInt 0), (''iter'', PyInt 1)]
         = Inr (savefig_names evs ! 1)"
    using fmt(2) names by simp
  show ?thesis using m run names len last by blast
qed

section \<open>The frame sequence of makegif\<close>


lemma py_eval_not_str:
  "(\<forall>s. v \<noteq> PyStr s) \<Longrightarrow> py_eval sv v = Inl TypeError"
  by (cases v) (simp_all add: py_eval_def)











section \<open>The center point of plot_radial\<close>

lemma read_opts_plain_present:
  assumes "\<forall>k \<in> set ks. ad k \<noteq> None"
  shows "\<exists>loc'. read_opts sv ad (map Plain ks @ rs) loc = read_opts sv ad rs loc'"
  using assms
proof (induction ks arbitrary: loc)
  case Nil
  then show ?case by auto
next
  case (Cons k ks)
  then obtain v where v: "ad k = Some v" by auto
  have "\<forall>k \<in> set ks. ad k \<noteq> None" using Cons.prems by simp
  from Cons.IH [OF this, of "loc(k \<mapsto> v)"] obtain loc' where
    "read_opts sv ad (map Plain ks @ rs) (loc(k \<mapsto> v)) = read_opts sv ad rs loc'"
    by blast
  then have "read_opts sv ad (map Plain (k # ks) @ rs) loc = read_opts sv ad rs loc'"
    using v by (simp add: getitem_def)
  then show ?case by blast
qed

lemma read_opts_missing_center:
  assumes "ad ''xc'' = None \<or> ad ''yc'' = None"
  shows "read_opts sv ad [Plain ''xc'', Plain ''yc''] loc =
           Inl (KeyError (PyStr (if ad ''xc'' = None then ''xc'' else ''yc'')))"
  using assms by (auto simp: getitem_def split: option.splits)

lemma mergedicts_lookup:
  assumes "mergedicts (PyDict kvs) defs = Inr ad"
  shows "ad k = (case map_of kvs k of
                   Some v \<Rightarrow> Some v
                 | None \<Rightarrow> map_of (map (\<lambda>d. (od_key d, od_default d)) defs) k)"
  using assms by (auto simp: mergedicts_def map_add_def split: option.splits)

lemma mergedicts_default_present:
  assumes "mergedicts (PyDict kvs) defs = Inr ad" and "k \<in> od_key ` set defs"
  shows "ad k \<noteq> None"
proof -
  have "map_of (map (\<lambda>d. (od_key d, od_default d)) defs) k \<noteq> None"
  proof -
    have "fst ` set (map (\<lambda>d. (od_key d, od_default d)) defs) = od_key ` set defs"
      by (induction defs) auto
    then show ?thesis using assms(2) by (simp add: map_of_eq_None_iff)
  qed
  then show ?thesis
    using mergedicts_lookup [OF assms(1), of k] by (simp split: option.splits)
qed

text \<open>
  What the merge leaves in a \<^verbatim>\<open>plot_radial\<close> configuration: every key of the schema,
  and for \<^verbatim>\<open>xc\<close> and \<^verbatim>\<open>yc\<close> exactly what the user gave.
\<close>

lemma mergedicts_plot_radial:
  assumes "mergedicts (PyDict kvs) plot_radial_actiondefs = Inr ad"
  shows "(\<forall>k \<in> od_key ` set plot_radial_actiondefs. ad k \<noteq> None)
         \<and> ad ''xc'' = map_of kvs ''xc'' \<and> ad ''yc'' = map_of kvs ''yc''"
proof -
  note look = mergedicts_lookup [OF assms]
  have "ad ''xc'' = map_of kvs ''xc''" and "ad ''yc'' = map_of kvs ''yc''"
    by (simp_all add: look plot_radial_actiondefs_def opt_def split: option.splits)
  then show ?thesis
    using mergedicts_default_present [OF assms] by blast
qed

text \<open>
  Claim C10. The schema of \<^verbatim>\<open>plot_radial\<close> declares neither \<^verbatim>\<open>xc\<close> nor \<^verbatim>\<open>yc\<close>, so
  no default exists for them. On a configuration that holds every key of the schema and
  lacks \<^verbatim>\<open>xc\<close> or \<^verbatim>\<open>yc\<close>, \<^verbatim>\<open>execute\<close> ends in an exception before it has drawn or
  saved anything; when the plot function evaluates, that exception is the
  \<^verbatim>\<open>KeyError\<close> of the first of the two keys that is missing.
\<close>

theorem plot_radial_missing_center:
  assumes "\<forall>k \<in> od_key ` set plot_radial_actiondefs. ad k \<noteq> None"
    and "ad ''xc'' = None \<or> ad ''yc'' = None"
  shows "''xc'' \<notin> od_key ` set plot_radial_actiondefs
         \<and> ''yc'' \<notin> od_key ` set plot_radial_actiondefs
         \<and> (\<exists>e. plot_radial_execute sv self ad = ([], Inl e))
         \<and> (\<forall>src f. ad ''plotfunc'' = Some src \<and> py_eval sv src = Inr f \<longrightarrow>
               plot_radial_execute sv self ad =
                 ([], Inl (KeyError (PyStr (if ad ''xc'' = None then ''xc'' else ''yc'')))))"
proof -
  have schema: "''xc'' \<notin> od_key ` set plot_radial_actiondefs"
    "''yc'' \<notin> od_key ` set plot_radial_actiondefs"
    by (simp_all add: plot_radial_actiondefs_def opt_def)
  obtain src where src: "ad ''plotfunc'' = Some src"
    using assms(1) by (auto simp: plot_radial_actiondefs_def opt_def)
  have present: "\<forall>k \<in> set [''title'', ''cmap'', ''cbar'', ''savefile'', ''dpi'', ''figsize'',
                    ''NR'', ''NTheta'', ''LR'', ''vmin'', ''vmax'']. ad k \<noteq> None"
    using assms(1) by (simp add: plot_radial_actiondefs_def opt_def)
  have reads: "plot_radial_reads =
      Evald ''plotfunc'' # map Plain [''title'', ''cmap'', ''cbar'', ''savefile'', ''dpi'', ''figsize'',
                    ''NR'', ''NTheta'', ''LR'', ''vmin'', ''vmax''] @ [Plain ''xc'', Plain ''yc'']"
    by (simp add: plot_radial_reads_def)
  have tail: "read_opts sv ad (map Plain [''title'', ''cmap'', ''cbar'', ''savefile'', ''dpi'', ''figsize'',
                    ''NR'', ''NTheta'', ''LR'', ''vmin'', ''vmax''] @ [Plain ''xc'', Plain ''yc'']) loc
             = Inl (KeyError (PyStr (if ad ''xc'' = None then ''xc'' else ''yc'')))" for loc
    using read_opts_plain_present [OF present, of sv "[Plain ''xc'', Plain ''yc'']" loc]
      read_opts_missing_center [OF assms(2), of sv]
    by auto
  have ro: "read_opts sv ad plot_radial_reads Map.empty =
              (case py_eval sv src of
                 Inl e \<Rightarrow> Inl e
               | Inr f \<Rightarrow> Inl (KeyError (PyStr (if ad ''xc'' = None then ''xc'' else ''yc''))))"
    unfolding reads using src tail by (simp add: getitem_def split: sum.splits)
  have a: "\<exists>e. plot_radial_execute sv self ad = ([], Inl e)"
    by (cases "py_eval sv src") (simp_all add: plot_radial_execute_def ro)
  have b: "plot_radial_execute sv self ad =
             ([], Inl (KeyError (PyStr (if ad ''xc'' = None then ''xc'' else ''yc''))))"
    if "ad ''plotfunc'' = Some src'" "py_eval sv src' = Inr f" for src' f
    using that src by (simp add: plot_radial_execute_def ro)
  show ?thesis using schema a b by blast
qed

text \<open>
  The theorem on a user configuration that gives the three required keys and \<^verbatim>\<open>yc\<close>
  but not \<^verbatim>\<open>xc\<close>, merged with the schema: the merged configuration has the defaults
  of the schema and no \<^verbatim>\<open>xc\<close>, and \<^verbatim>\<open>execute\<close> raises \<^verbatim>\<open>KeyError('xc')\<close>.
\<close>

theorem plot_radial_missing_center_witness:
  "\<exists>ad. mergedicts (PyDict [(''LR'', PyFloat 89), (''NR'', PyInt 4), (''NTheta'', PyInt 8),
                             (''yc'', PyInt 90)]) plot_radial_actiondefs = Inr ad
     \<and> ad ''xc'' = None
     \<and> ad ''yc'' = Some (PyInt 90)
     \<and> ad ''title'' = Some (PyStr [])
     \<and> ''xc'' \<notin> od_key ` set plot_radial_actiondefs
     \<and> plot_radial_execute ex_sv ex_self ad = ([], Inl (KeyError (PyStr ''xc'')))"
proof -
  define ad where "ad = map_of (map (\<lambda>d. (od_key d, od_default d)) plot_radial_actiondefs) ++
      map_of [(''LR'', PyFloat 89), (''NR'', PyInt 4), (''NTheta'', PyInt 8), (''yc'', PyInt 90)]"
  have m: "mergedicts (PyDict [(''LR'', PyFloat 89), (''NR'', PyInt 4), (''NTheta'', PyInt 8),
                               (''yc'', PyInt 90)]) plot_radial_actiondefs = Inr ad"
    by (simp add: mergedicts_def plot_radial_actiondefs_def opt_def ad_def)
  note mp = mergedicts_plot_radial [OF m]
  have keys: "\<forall>k \<in> od_key ` set plot_radial_actiondefs. ad k \<noteq> None"
    using mp by blast
  have xc: "ad ''xc'' = None" and yc: "ad ''yc'' = Some (PyInt 90)"
    using mp by simp_all
  have miss: "ad ''xc'' = None \<or> ad ''yc'' = None"
    using xc by simp
  have pf: "ad ''plotfunc'' = Some (PyStr ''lambda db,i: db['velocityx'][i]'')"
    and ti: "ad ''title'' = Some (PyStr [])"
    by (simp_all add: ad_def plot_radial_actiondefs_def opt_def map_add_def)
  have ev: "py_eval ex_sv (PyStr ''lambda db,i: db['velocityx'][i]'')
              = Inr (PyObj ''lambda db,i: db['velocityx'][i]'')"
    by (simp add: py_eval_def ex_sv_def)
  note inst = plot_radial_missing_center [OF keys miss, of ex_sv ex_self]
  have "plot_radial_execute ex_sv ex_self ad = ([], Inl (KeyError (PyStr ''xc'')))"
    using inst pf ev xc by simp
  moreover have "''xc'' \<notin> od_key ` set plot_radial_actiondefs"
    using inst by blast
  ultimately show ?thesis using m xc yc ti by blast
qed

section \<open>Unreadable frames and the iteration placeholder\<close>

text \<open>
  What makegif encodes: the frames that can be read, converted, in the order of the file
  names; a name whose file cannot be read contributes nothing.
\<close>

lemma read_frames_skips:
  "read_frames sv fs = map (sv_cvtColor sv) (List.map_filter (sv_imread sv) fs)"
  by (induction fs) (simp_all add: List.map_filter_simps split: option.splits)

text \<open>
  Claim C6. The claim holds for makegif and fails for animate. On a plane of two frames
  whose first image file cannot be read, makegif skips that file and encodes the other
  frame, while animate, which reads \<^verbatim>\<open>frame.shape\<close> of the first image without a test
  for \<^verbatim>\<open>None\<close>, ends in \<^verbatim>\<open>AttributeError\<close> after it has made the output directory.
\<close>

theorem animate_unreadable_first_frame:
  "sv_imread ex_sv ''f_20.0.png'' = None
   \<and> animate_execute ex_sv
        (ex_self\<lparr>p_db := [''times'' \<mapsto> PyList [PyFloat 20, PyFloat 10]]\<rparr>)
        [''name'' \<mapsto> PyStr ''o.mp4'', ''fps'' \<mapsto> PyInt 1,
         ''imagefilename'' \<mapsto> PyStr ''f_{time}.png'', ''times'' \<mapsto> PyNone]
       = ([MakeDirs ''/''], Inl AttributeError)
   \<and> makegif_execute ex_sv
        (ex_self\<lparr>p_db := [''times'' \<mapsto> PyList [PyFloat 20, PyFloat 10]]\<rparr>)
        [''name'' \<mapsto> PyStr ''o.mp4'', ''fps'' \<mapsto> PyInt 1,
         ''imagefilename'' \<mapsto> PyStr ''f_{time}.png'', ''times'' \<mapsto> PyNone]
       = ([MakeDirs ''/'', MimSave (PyStr ''o.mp4'') [7] (PyInt 1)], Inr ())"
proof -
  define self where "self = ex_self\<lparr>p_db := [''times'' \<mapsto> PyList [PyFloat 20, PyFloat 10]]\<rparr>"
  define ad :: pydict where "ad = [''name'' \<mapsto> PyStr ''o.mp4'', ''fps'' \<mapsto> PyInt 1,
         ''imagefilename'' \<mapsto> PyStr ''f_{time}.png'', ''times'' \<mapsto> PyNone]"
  have ft: "frame_time self 0 = Inr (PyFloat 20)" "frame_time self (Suc 0) = Inr (PyFloat 10)"
    by (simp_all add: frame_time_def self_def getitem_def)
  have it: "p_iters self = PyList [PyInt 0, PyInt 1]" "p_iplane self = PyInt 0"
    by (simp_all add: self_def ex_self_def)
  have fmt3: "str_format ex_sv (PyStr ''f_{time}.png'')
               [(''time'', PyFloat 20), (''iplane'', PyInt 0), (''iter'', PyInt 0)] = Inr ''f_20.0.png''"
    "str_format ex_sv (PyStr ''f_{time}.png'')
               [(''time'', PyFloat 10), (''iplane'', PyInt 0), (''iter'', PyInt 1)] = Inr ''f_10.0.png''"
    by (simp_all add: str_format_def fmt_field_def ex_sv_def ex_str_def is_digit_def)
  have fmt2: "str_format ex_sv (PyStr ''f_{time}.png'')
               [(''time'', PyFloat 20), (''iplane'', PyInt 0)] = Inr ''f_20.0.png''"
    "str_format ex_sv (PyStr ''f_{time}.png'')
               [(''time'', PyFloat 10), (''iplane'', PyInt 0)] = Inr ''f_10.0.png''"
    by (simp_all add: str_format_def fmt_field_def ex_sv_def ex_str_def is_digit_def)
  have rd: "sv_imread ex_sv ''f_20.0.png'' = None" "sv_imread ex_sv ''f_10.0.png'' = Some 7"
    "sv_cvtColor ex_sv 7 = 7" "sv_hasimageio ex_sv"
    by (simp_all add: ex_sv_def)
  have sp: "os_path_split ''o.mp4'' = ([], ''o.mp4'')"
    by (simp add: os_path_split_def)
  have imgs: "animate_images ex_sv self (PyStr ''f_{time}.png'') [PyInt 0, PyInt 1]
                = Inr [''f_20.0.png'', ''f_10.0.png'']"
    by (simp add: animate_images_def ft it fmt3)
  have a: "animate_execute ex_sv self ad = ([MakeDirs ''/''], Inl AttributeError)"
    by (simp add: animate_execute_def ad_def getitem_def make_parent_dir_def sp it imgs rd
        r_raise_def)
  have mt: "makegif_times ex_sv ad = (PyNone, False)"
    by (simp add: makegif_times_def ad_def getitem_def py_eval_def)
  have gi: "makegif_images ex_sv self ad (PyStr ''f_{time}.png'') = Inr [''f_20.0.png'', ''f_10.0.png'']"
    by (simp add: makegif_images_def mt it ft fmt2)
  have g: "makegif_execute ex_sv self ad
             = ([MakeDirs ''/'', MimSave (PyStr ''o.mp4'') [7] (PyInt 1)], Inr ())"
    using gi by (simp add: makegif_execute_def rd ad_def getitem_def make_parent_dir_def sp r_emit_def)
  show ?thesis using rd(1) a g unfolding self_def ad_def by simp
qed

text \<open>
  Claim C7. The placeholder \<^verbatim>\<open>{iter}\<close> is resolved by animate (and by plot, which
  passes the same three keyword arguments), but makegif and \<^verbatim>\<open>plot_radial\<close> call
  \<^verbatim>\<open>format\<close> with \<^verbatim>\<open>time\<close> and \<^verbatim>\<open>iplane\<close> only: on the template
  \<^verbatim>\<open>f_{iter}.png\<close> both end in \<^verbatim>\<open>KeyError('iter')\<close>.
\<close>

theorem iter_placeholder_rejected:
  "animate_images ex_sv ex_self (PyStr ''f_{iter}.png'') [PyInt 0, PyInt 1]
     = Inr [''f_0.png'', ''f_1.png'']
   \<and> makegif_images ex_sv ex_self [''times'' \<mapsto> PyNone] (PyStr ''f_{iter}.png'')
     = Inl (KeyError (PyStr ''iter''))
   \<and> plot_radial_frame ex_sv ex_self [''savefile'' \<mapsto> PyStr ''f_{iter}.png''] [0, 1] [0] (PyInt 0)
        0 (PyInt 0)
     = ([], Inl (KeyError (PyStr ''iter'')))"
proof -
  have ft: "frame_time ex_self 0 = Inr (PyFloat 10)" "frame_time ex_self (Suc 0) = Inr (PyFloat 20)"
    by (simp_all add: frame_time_def ex_self_def ex_db_def getitem_def)
  have it: "p_iters ex_self = PyList [PyInt 0, PyInt 1]" "p_iplane ex_self = PyInt 0"
    by (simp_all add: ex_self_def)
  have fmt3: "str_format ex_sv (PyStr ''f_{iter}.png'')
               [(''time'', PyFloat 10), (''iplane'', PyInt 0), (''iter'', PyInt 0)] = Inr ''f_0.png''"
    "str_format ex_sv (PyStr ''f_{iter}.png'')
               [(''time'', PyFloat 20), (''iplane'', PyInt 0), (''iter'', PyInt 1)] = Inr ''f_1.png''"
    by (simp_all add: str_format_def fmt_field_def ex_sv_def ex_str_def is_digit_def)
  have fmt2: "str_format ex_sv (PyStr ''f_{iter}.png'')
               [(''time'', PyFloat 10), (''iplane'', PyInt 0)] = Inl (KeyError (PyStr ''iter''))"
    by (simp add: str_format_def fmt_field_def is_digit_def)
  have a: "animate_images ex_sv ex_self (PyStr ''f_{iter}.png'') [PyInt 0, PyInt 1]
             = Inr [''f_0.png'', ''f_1.png'']"
    by (simp add: animate_images_def ft it fmt3)
  have mt: "makegif_times ex_sv [''times'' \<mapsto> PyNone] = (PyNone, False)"
    by (simp add: makegif_times_def getitem_def py_eval_def)
  have g: "makegif_images ex_sv ex_self [''times'' \<mapsto> PyNone] (PyStr ''f_{iter}.png'')
             = Inl (KeyError (PyStr ''iter''))"
    by (simp add: makegif_images_def mt it ft fmt2)
  have rs: "sv_radial_yz ex_sv s = Inr ()" "sv_radial_draw ex_sv s l rr th i = Inr ()" for s l rr th i
    by (simp_all add: ex_sv_def)
  have r: "plot_radial_frame ex_sv ex_self [''savefile'' \<mapsto> PyStr ''f_{iter}.png''] [0, 1] [0]
             (PyInt 0) 0 (PyInt 0) = ([], Inl (KeyError (PyStr ''iter'')))"
    by (simp add: plot_radial_frame_def ft local_var_def save_frame_def fmt2 rs)
  show ?thesis using a g r by simp
qed

end
